theory Spec2Isabelle
  imports Main "HOL-Library.While_Combinator" "HOL-Library.Sublist" "HOL-Library.Multiset"
begin

section \<open>Catalog data\<close>

text \<open>
  The catalog types of the SDK (\<open>User\<close>, \<open>Placement\<close>, \<open>Paywall\<close>, \<open>ProductBundle\<close>,
  \<open>Product\<close>, \<open>PaymentProvider\<close>) as records. A provider kind is a string at run time
  (the values arrive as JSON), so \<open>kind\<close> and \<open>store\<close> are strings and the code's
  \<open>default\<close> branches stay reachable. A JavaScript object used as a dictionary is an
  association list in key order; an optional field is an \<open>option\<close>.
\<close>

record PaymentProvider =
  pp_id :: string
  pp_identifier :: string
  pp_kind :: string
  pp_token :: "string option"

record Product =
  prod_id :: string
  base_plan_id :: string
  store :: string

record ProductBundle =
  pb_id :: string
  pb_name :: string
  products :: "Product list"
  properties :: "(string \<times> (string \<times> string) list) list option"

record Paywall =
  pw_id :: string
  items_v2 :: "ProductBundle list"

record Placement =
  pl_id :: string
  pl_identifier :: string
  paywalls :: "Paywall list"

record User =
  u_id :: string
  u_is_sandbox :: bool
  u_placements :: "Placement list option"
  payment_providers :: "PaymentProvider list option"

section \<open>JavaScript helpers\<close>

text \<open>
  \<open>Array.prototype.find\<close>: the first element satisfying the predicate, or
  \<open>undefined\<close> (\<open>None\<close>).
\<close>

fun js_find :: "('a \<Rightarrow> bool) \<Rightarrow> 'a list \<Rightarrow> 'a option" where
  "js_find P [] = None"
| "js_find P (x # xs) = (if P x then Some x else js_find P xs)"

text \<open>
  A JavaScript number that is an integer, or \<open>NaN\<close>. The SDK's numbers here are
  array indices and what \<open>parseInt\<close> returns.
\<close>

datatype js_number = Num int | NaN

text \<open>
  Reading \<open>xs[i]\<close> for a number \<open>i\<close>: the element when \<open>i\<close> is an index of the
  array, \<open>undefined\<close> otherwise (a negative number, one past the end, or \<open>NaN\<close>).
\<close>

fun js_index :: "'a list \<Rightarrow> js_number \<Rightarrow> 'a option" where
  "js_index xs NaN = None"
| "js_index xs (Num i) = (if 0 \<le> i \<and> i < int (length xs) then Some (xs ! nat i) else None)"

text \<open>
  A JavaScript \<open>Map\<close> keeps its keys in insertion order; \<open>set\<close> on a key already
  present replaces the value in place.
\<close>

fun map_set :: "'k \<Rightarrow> 'v \<Rightarrow> ('k \<times> 'v) list \<Rightarrow> ('k \<times> 'v) list" where
  "map_set k v [] = [(k, v)]"
| "map_set k v ((k', v') # m) =
     (if k' = k then (k, v) # m else (k', v') # map_set k v m)"

definition map_get :: "('k \<times> 'v) list \<Rightarrow> 'k \<Rightarrow> 'v option" where
  "map_get m k = map_of m k"

text \<open>
  Strings are lists of code units below 256. \<open>String.prototype.trim\<close> and
  \<open>parseInt\<close> skip white space: of the code units below 256 these are tab, line feed,
  vertical tab, form feed, carriage return, space and the no-break space.
\<close>

definition is_js_space :: "char \<Rightarrow> bool" where
  "is_js_space c = ((of_char c :: nat) \<in> {9, 10, 11, 12, 13, 32, 160})"

definition trim :: "string \<Rightarrow> string" where
  "trim s = rev (dropWhile is_js_space (rev (dropWhile is_js_space s)))"

text \<open>
  \<open>String.prototype.split\<close> with a one-character separator: the pieces between the
  separators, empty pieces included; a string without the separator is one piece.
\<close>

fun split :: "char \<Rightarrow> string \<Rightarrow> string list" where
  "split sep [] = [[]]"
| "split sep (c # cs) =
     (if c = sep then [] # split sep cs
      else (case split sep cs of [] \<Rightarrow> [[c]] | w # ws \<Rightarrow> (c # w) # ws))"

definition digit_char :: "nat \<Rightarrow> char" where
  "digit_char d = char_of (48 + d)"

fun digits :: "nat \<Rightarrow> string" where
  "digits n = (if n < 10 then [digit_char n] else digits (n div 10) @ [digit_char (n mod 10)])"

declare digits.simps [simp del]

text \<open>
  The string a template literal makes of a number: the decimal digits of an integer
  (of magnitude below \<open>10^21\<close>, where JavaScript switches to exponent notation), with a
  minus sign when negative.
\<close>

fun number_to_string :: "js_number \<Rightarrow> string" where
  "number_to_string NaN = ''NaN''"
| "number_to_string (Num i) = (if i < 0 then CHR ''-'' # digits (nat (- i)) else digits (nat i))"

text \<open>The value of a digit in the given radix (10 or 16), if the character is one.\<close>

definition digit_value :: "nat \<Rightarrow> char \<Rightarrow> nat option" where
  "digit_value radix c =
     (let n = (of_char c :: nat) in
      if 48 \<le> n \<and> n \<le> 57 then Some (n - 48)
      else if radix = 16 \<and> 97 \<le> n \<and> n \<le> 102 then Some (n - 87)
      else if radix = 16 \<and> 65 \<le> n \<and> n \<le> 70 then Some (n - 55)
      else None)"

text \<open>
  \<open>parseInt\<close> with no radix argument: leading white space is skipped, a sign is read,
  a \<open>0x\<close> prefix selects radix 16, and the longest prefix of digits is the value;
  \<open>NaN\<close> when there is no digit.
\<close>

definition parseInt :: "string \<Rightarrow> js_number" where
  "parseInt str =
     (let s1 = dropWhile is_js_space str;
          neg = (s1 \<noteq> [] \<and> hd s1 = CHR ''-'');
          s2 = (if s1 \<noteq> [] \<and> (hd s1 = CHR ''-'' \<or> hd s1 = CHR ''+'') then tl s1 else s1);
          hex = (length s2 \<ge> 2 \<and> hd s2 = CHR ''0'' \<and> (s2 ! 1 = CHR ''x'' \<or> s2 ! 1 = CHR ''X''));
          radix = (if hex then 16 else 10);
          s3 = (if hex then drop 2 s2 else s2);
          ds = takeWhile (\<lambda>c. digit_value radix c \<noteq> None) s3
      in if ds = [] then NaN
         else let v = foldl (\<lambda>a c. a * radix + the (digit_value radix c)) 0 ds
              in Num (if neg then - int v else int v))"

text \<open>The keys of the cookie store used by the SDK (\<open>config/constants\<close>).\<close>

datatype cookie_key =
    EventsKey
  | SelectedBundleIndex
  | DeepLinkURL
  | PaymentProviderKey
  | ProductionUserIdKey
  | DebugUserIdKey
  | StartAppVersionKey

section \<open>Payment forms\<close>

subsection \<open>Options, responses and errors\<close>

text \<open>
  The form options a page passes to \<open>paymentForm\<close>. A callback of the host page
  (\<open>onSuccess\<close>, \<open>buttonStateSetter\<close>, \<open>onApplePayAvailable\<close>) is represented by
  whether it was supplied; calling it is recorded as an effect.
\<close>

record StaticPrice =
  sp_currency :: string
  sp_amount :: nat

record ApplePayConfig =
  priceMacro :: "string option"
  productMacro :: "string option"
  productLabel :: "string option"
  staticPrice :: "StaticPrice option"
  requestPayerName :: bool
  requestPayerEmail :: bool
  requestPayerPhone :: bool
  onApplePayAvailable :: bool

record PaymentProviderFormOptions =
  paymentProvider :: "string option"
  successUrl :: "string option"
  onSuccess :: bool
  opt_id :: "string option"
  buttonStateSetter :: bool
  applePay :: bool
  applePayConfig :: "ApplePayConfig option"

record Subscription =
  sub_id :: string
  client_secret :: "string option"
  deep_link :: "string option"
  sub_customer_id :: "string option"

record CustomerSetup =
  cs_id :: string
  cs_client_secret :: string

record StripeSubscriptionOptions =
  trialDays :: "js_number option"
  couponId :: "string option"

record PaddleSubscriptionOptions =
  discountId :: "string option"

text \<open>
  A value thrown, or the reason of a rejected promise: an \<open>Error\<close> made by the SDK
  with its message, or whatever a call to the back end or to a provider library failed
  with.
\<close>

datatype js_error = Error string | Failure string

text \<open>How an awaited call to the back end settles.\<close>

datatype 'a api_result = Resolved 'a | Rejected js_error

text \<open>
  What the environment answers while a form is shown: whether the provider library has
  loaded by the time the form needs it, and how the customer and subscription calls
  settle. A response may be \<open>null\<close> (the code tests for it).
\<close>

record backend =
  stripe_loaded :: bool
  createCustomer_response :: "CustomerSetup option api_result"
  createSubscription_response :: "Subscription option api_result"
  paddle_loaded :: bool
  paddle_reloaded :: bool
  checkout_open_error :: "string option"

text \<open>What a submit of the Stripe form meets: the results of the three awaited calls.\<close>

record submit_answers =
  confirmSetup_result :: "js_error + string"
  subscription_response :: "Subscription option api_result"
  confirmCardPayment_error :: "js_error option"

subsection \<open>The page and the effects of a form\<close>

datatype button_state = Loading | Ready | Processing | ErrorState

datatype redirect = CallOnSuccess | Navigate string | NavigateDefault "string option"

datatype payload =
    Selector string
  | NoData
  | Failed js_error
  | ApplePayButton "string option"

text \<open>
  Everything a form does to the world outside its own fields, in the order it happens:
  log lines, lifecycle events handed to the form builder, cookies, the error slot and
  the submit button, calls to the provider library and the back end, the timer that
  redirects after a payment, and the rejected promises that nothing handles.
\<close>

datatype effect =
    LogError string
  | Emit string payload
  | SetCookie cookie_key string
  | DisplayError string
  | ButtonSetter button_state
  | ButtonDom button_state
  | PreventDefault
  | CreateCustomer
  | MountPaymentElement
  | ConfirmSetup
  | CreateSubscription "string option" "string option"
  | ConfirmCardPayment string
  | TrackFacebookPurchase
  | SetTimeout redirect
  | ShowElement string
  | ApplePayAvailable
  | OpenCheckout
  | UnhandledRejection js_error

record element_ids =
  ids_form :: string
  ids_payment :: string
  ids_submit :: string
  ids_error :: string
  ids_applePayButton :: "string option"

record PaymentRequest =
  pr_country :: string
  pr_currency :: string
  pr_label :: string
  pr_amount :: nat
  pr_requestPayerName :: bool
  pr_requestPayerEmail :: bool
  pr_requestPayerPhone :: bool

record StripeForm =
  sf_user :: User
  sf_provider :: PaymentProvider
  stripe :: bool
  stripe_elements :: bool
  subscription :: "Subscription option"
  submit :: "string option"
  customer :: "CustomerSetup option"
  productBundle :: "ProductBundle option"
  currentProductId :: "string option"
  currentPaywallId :: "string option"
  currentPlacementId :: "string option"
  subscriptionOptions :: "StripeSubscriptionOptions option"
  elementIDs :: element_ids
  sf_buttonStateSetter :: bool
  formElement :: "string option"
  submitHandler :: "nat option"
  paymentRequest :: "PaymentRequest option"
  applePayButtonHandler :: "nat option"
  applePayButton :: "string option"
  isActive :: bool

record PaddleForm =
  pf_user :: User
  pf_provider :: PaymentProvider
  paddle :: bool
  pf_loading :: bool
  pf_currentOptions :: "PaymentProviderFormOptions option"
  pf_subscription :: "Subscription option"

datatype PaymentForm = StripeF StripeForm | PaddleF PaddleForm

text \<open>A function registered as a DOM listener: the form it belongs to and what it does.\<close>

datatype handler = SubmitHandler nat PaymentProviderFormOptions | ApplePayClick nat

text \<open>
  The document and the objects living in it. An element is known by its id (ids are
  taken to be unique); \<open>listeners\<close> are the registered event listeners as (element,
  event type, function), in the order of registration. Form objects and listener
  functions are referred to by number; \<open>forms\<close> maps a reference to the object's
  current fields. \<open>odd_selector\<close> is what \<open>document.querySelector\<close> does with a
  selector \<open>#id\<close> whose id is no plain identifier (see \<open>querySelector_id\<close>).
\<close>

record page =
  elements :: "string list"
  odd_selector :: "string \<Rightarrow> js_error + string option"
  listeners :: "(string \<times> string \<times> nat) list"
  forms :: "(nat \<times> PaymentForm) list"
  handlers :: "(nat \<times> handler) list"
  next_ref :: nat
  effects :: "effect list"

definition effect :: "effect \<Rightarrow> page \<Rightarrow> page" where
  "effect e pg = pg\<lparr>effects := effects pg @ [e]\<rparr>"

definition addEventListener :: "string \<Rightarrow> string \<Rightarrow> nat \<Rightarrow> page \<Rightarrow> page" where
  "addEventListener el ty h pg =
     (if (el, ty, h) \<in> set (listeners pg) then pg
      else pg\<lparr>listeners := listeners pg @ [(el, ty, h)]\<rparr>)"

definition removeEventListener :: "string \<Rightarrow> string \<Rightarrow> nat \<Rightarrow> page \<Rightarrow> page" where
  "removeEventListener el ty h pg = pg\<lparr>listeners := remove1 (el, ty, h) (listeners pg)\<rparr>"

text \<open>
  \<open>document.getElementById(id)\<close> finds the element with that id. So does
  \<open>document.querySelector('#' + id)\<close> when the id is a plain identifier: a letter or an
  underscore followed by letters, digits, hyphens and underscores. For any other id the
  text \<open>#id\<close> may be no selector at all, and the call throws, or a selector of another
  meaning, which finds some element or none; what happens is left to the page.
\<close>

definition getElementById :: "string \<Rightarrow> page \<Rightarrow> string option" where
  "getElementById i pg = (if i \<in> set (elements pg) then Some i else None)"

definition is_name_start :: "char \<Rightarrow> bool" where
  "is_name_start c =
     (let n = (of_char c :: nat)
      in (65 \<le> n \<and> n \<le> 90) \<or> (97 \<le> n \<and> n \<le> 122) \<or> n = 95)"

definition is_name_char :: "char \<Rightarrow> bool" where
  "is_name_char c =
     (let n = (of_char c :: nat) in is_name_start c \<or> (48 \<le> n \<and> n \<le> 57) \<or> n = 45)"

definition plain_identifier :: "string \<Rightarrow> bool" where
  "plain_identifier i =
     (case i of [] \<Rightarrow> False | c # cs \<Rightarrow> is_name_start c \<and> list_all is_name_char cs)"

definition querySelector_id :: "string \<Rightarrow> page \<Rightarrow> js_error + string option" where
  "querySelector_id i pg =
     (if plain_identifier i then Inr (getElementById i pg) else odd_selector pg i)"

text \<open>
  A step that may throw gives the value thrown, if any, and the state it leaves.
  \<open>and_then\<close> runs the next step unless the first has thrown.
\<close>

definition and_then ::
  "js_error option \<times> 's \<Rightarrow> ('s \<Rightarrow> js_error option \<times> 's) \<Rightarrow> js_error option \<times> 's" where
  "and_then r f = (case r of (None, s) \<Rightarrow> f s | (Some e, s) \<Rightarrow> (Some e, s))"

definition submit_listeners :: "page \<Rightarrow> (string \<times> string \<times> nat) list" where
  "submit_listeners pg = filter (\<lambda>l. fst (snd l) = ''submit'') (listeners pg)"

text \<open>A string is truthy when it is present and not empty.\<close>

definition truthy :: "string option \<Rightarrow> bool" where
  "truthy x = (case x of None \<Rightarrow> False | Some v \<Rightarrow> v \<noteq> [])"

subsection \<open>StripeForm\<close>

definition ELEMENT_IDS_new :: element_ids where
  "ELEMENT_IDS_new =
     \<lparr>ids_form = ''apphud-stripe-payment-form'', ids_payment = ''stripe-payment-element'',
      ids_submit = ''stripe-submit'', ids_error = ''stripe-error-message'',
      ids_applePayButton = Some ''apphud-apple-pay-button''\<rparr>"

definition ELEMENT_IDS_old :: element_ids where
  "ELEMENT_IDS_old =
     \<lparr>ids_form = ''apphud-payment-form'', ids_payment = ''payment-element'',
      ids_submit = ''submit'', ids_error = ''error-message'', ids_applePayButton = None\<rparr>"

text \<open>
  The constructor. Its \<open>documentReady\<close> callback checks the token and loads Stripe;
  the model takes the document as loaded and \<open>loadStripe\<close> as settled by the time the
  form reads \<open>this.stripe\<close>.
\<close>

definition new_StripeForm :: "User \<Rightarrow> PaymentProvider \<Rightarrow> backend \<Rightarrow> page \<Rightarrow> StripeForm \<times> page" where
  "new_StripeForm u provider b pg =
     (let form = \<lparr>sf_user = u, sf_provider = provider, stripe = False, stripe_elements = False,
                   subscription = None, submit = None, customer = None, productBundle = None,
                   currentProductId = None, currentPaywallId = None, currentPlacementId = None,
                   subscriptionOptions = None, elementIDs = ELEMENT_IDS_old,
                   sf_buttonStateSetter = False, formElement = None, submitHandler = None,
                   paymentRequest = None, applePayButtonHandler = None, applePayButton = None,
                   isActive = True\<rparr>
      in if \<not> truthy (pp_token provider)
         then (form, effect (LogError ''Missing Stripe provider token'') pg)
         else (form\<lparr>stripe := stripe_loaded b\<rparr>, pg))"

definition cancel :: "StripeForm \<Rightarrow> StripeForm" where
  "cancel form = form\<lparr>isActive := False\<rparr>"

definition displayError ::
  "string \<Rightarrow> StripeForm \<times> page \<Rightarrow> js_error option \<times> StripeForm \<times> page" where
  "displayError message fp =
     (let (form, pg) = fp
      in case querySelector_id (ids_error (elementIDs form)) pg of
           Inl e \<Rightarrow> (Some e, form, pg)
         | Inr None \<Rightarrow> (None, form, pg)
         | Inr (Some el) \<Rightarrow> (None, form, effect (DisplayError message) pg))"

definition setButtonState :: "button_state \<Rightarrow> StripeForm \<times> page \<Rightarrow> StripeForm \<times> page" where
  "setButtonState st fp =
     (let (form, pg) = fp
      in if submit form = None
         then (form, effect (LogError ''Submit button not found. Failed to set state:'') pg)
         else if sf_buttonStateSetter form \<and> st \<noteq> ErrorState
         then (form, effect (ButtonSetter st) pg)
         else (form, effect (ButtonDom st) pg))"

definition cleanupFormListeners :: "StripeForm \<times> page \<Rightarrow> StripeForm \<times> page" where
  "cleanupFormListeners fp =
     (let (form, pg) = fp;
          (form1, pg1) =
            (case (formElement form, submitHandler form) of
               (Some el, Some h) \<Rightarrow>
                 (form\<lparr>submitHandler := None\<rparr>, removeEventListener el ''submit'' h pg)
             | _ \<Rightarrow> (form, pg))
      in case (applePayButton form1, applePayButtonHandler form1) of
           (Some el, Some h) \<Rightarrow>
             (form1\<lparr>applePayButtonHandler := None, applePayButton := None\<rparr>,
              removeEventListener el ''click'' h pg1)
         | _ \<Rightarrow> (form1, pg1))"

text \<open>
  \<open>createCustomer\<close> in two parts: up to the call of the back end it awaits, and from the
  moment that call settles.
\<close>

definition createCustomer_request ::
  "PaymentProviderFormOptions \<Rightarrow> StripeForm \<times> page \<Rightarrow> StripeForm \<times> page" where
  "createCustomer_request options fp = apsnd (effect CreateCustomer) fp"

definition createCustomer_settled ::
  "CustomerSetup option api_result \<Rightarrow> StripeForm \<times> page \<Rightarrow> js_error option \<times> StripeForm \<times> page" where
  "createCustomer_settled response fp =
     (let (form, pg) = fp
      in case response of
           Rejected e \<Rightarrow> (Some e, form, pg)
         | Resolved c \<Rightarrow>
             (let form1 = form\<lparr>customer := c\<rparr>
              in if c = None
                 then (None, form1, effect (LogError ''Failed to create customer for user'') pg)
                 else (None, form1, pg)))"

definition initStripe ::
  "PaymentProviderFormOptions \<Rightarrow> StripeForm \<times> page \<Rightarrow> js_error option \<times> StripeForm \<times> page" where
  "initStripe options fp =
     (let (form, pg) = fp
      in if \<not> stripe form then
           and_then
             (displayError ''Failed to initialize payment form. Please try again.''
                (form, effect (LogError ''Failed to initialize Stripe'') pg))
             (\<lambda>fp1. (None, setButtonState ErrorState fp1))
         else if customer form = None then
           and_then
             (displayError ''Failed to initialize payment form. Please try again.''
                (form, effect (LogError ''Failed to initialize Stripe, customer not initialized'') pg))
             (\<lambda>fp1. (None, setButtonState ErrorState fp1))
         else
           (let form1 = form\<lparr>stripe_elements := True\<rparr>
            in if getElementById (ids_payment (elementIDs form1)) pg \<noteq> None
               then (None, form1, effect MountPaymentElement pg) else (None, form1, pg)))"

text \<open>
  \<open>setupForm\<close> is an \<open>async\<close> method that \<open>show\<close> calls without awaiting it: when the
  lookup of the form element throws, the promise of \<open>setupForm\<close> is rejected and nothing
  handles it.
\<close>

definition setupForm ::
  "nat \<Rightarrow> PaymentProviderFormOptions \<Rightarrow> StripeForm \<times> page \<Rightarrow> StripeForm \<times> page" where
  "setupForm self options fp =
     (if \<not> isActive (fst fp) then fp
      else
        (let (form, pg) = cleanupFormListeners fp
         in case querySelector_id (ids_form (elementIDs form)) pg of
              Inl e \<Rightarrow> (form, effect (UnhandledRejection e) pg)
            | Inr None \<Rightarrow> (form, effect (LogError ''Payment form: no form provided'') pg)
            | Inr (Some el) \<Rightarrow>
                (let h = next_ref pg;
                     pg1 = pg\<lparr>handlers := map_set h (SubmitHandler self options) (handlers pg),
                              next_ref := Suc h\<rparr>
                 in (form\<lparr>formElement := Some el, submitHandler := Some h\<rparr>,
                     addEventListener el ''submit'' h pg1))))"

text \<open>The ids the form looks for: prefixed when the options carry an id.\<close>

definition prefixed_ids :: "string \<Rightarrow> element_ids" where
  "prefixed_ids p =
     \<lparr>ids_form = p @ ''-'' @ ids_form ELEMENT_IDS_new,
      ids_payment = p @ ''-'' @ ids_payment ELEMENT_IDS_new,
      ids_submit = p @ ''-'' @ ids_submit ELEMENT_IDS_new,
      ids_error = p @ ''-'' @ ids_error ELEMENT_IDS_new,
      ids_applePayButton =
        map_option (\<lambda>i. p @ ''-'' @ i) (ids_applePayButton ELEMENT_IDS_new)\<rparr>"

definition detect_ids :: "PaymentProviderFormOptions \<Rightarrow> StripeForm \<Rightarrow> page \<Rightarrow> element_ids" where
  "detect_ids options form pg =
     (if truthy (opt_id options) then prefixed_ids (the (opt_id options))
      else if getElementById (ids_form ELEMENT_IDS_new) pg \<noteq> None then ELEMENT_IDS_new
      else elementIDs form)"

subsection \<open>Submitting the Stripe form\<close>

definition createSubscription ::
  "string option \<Rightarrow> string option \<Rightarrow> string option \<Rightarrow> string \<Rightarrow> string \<Rightarrow>
   Subscription option api_result \<Rightarrow> StripeForm \<times> page \<Rightarrow> js_error option \<times> StripeForm \<times> page" where
  "createSubscription productId paywallId placementId customerId paymentMethodId response fp =
     (let (form, pg) = fp;
          pg1 = effect (CreateSubscription productId (Some paymentMethodId)) pg
      in case response of
           Resolved sub \<Rightarrow>
             (let form1 = form\<lparr>subscription := sub\<rparr>
              in if sub = None
                 then (None, form1, effect (LogError ''Failed to create subscription for product:'') pg1)
                 else (None, form1, pg1))
         | Rejected e \<Rightarrow>
             (Some (Error ''Failed to create subscription due to network error''), form,
              effect (LogError ''Network error creating subscription:'') pg1))"

definition handleSuccessfulPayment ::
  "PaymentProviderFormOptions \<Rightarrow> StripeForm \<times> page \<Rightarrow> StripeForm \<times> page" where
  "handleSuccessfulPayment options fp =
     (let (form, pg) = fp;
          deepLink = (case subscription form of None \<Rightarrow> None | Some sub \<Rightarrow> deep_link sub);
          pg1 = (if truthy deepLink then effect (SetCookie DeepLinkURL (the deepLink)) pg else pg);
          pg2 = effect (SetCookie PaymentProviderKey ''stripe'') pg1;
          pg3 = (if subscription form \<noteq> None then effect TrackFacebookPurchase pg2 else pg2)
      in (form,
          effect (SetTimeout
                    (if onSuccess options then CallOnSuccess
                     else if truthy (successUrl options) \<and> successUrl options \<noteq> Some ''undefined''
                     then Navigate (the (successUrl options))
                     else NavigateDefault deepLink)) pg3))"

definition emit_payment_failure :: "js_error \<Rightarrow> StripeForm \<times> page \<Rightarrow> StripeForm \<times> page" where
  "emit_payment_failure e fp = apsnd (effect (Emit ''payment_failure'' (Failed e))) fp"

text \<open>The \<open>catch\<close> block around the subscription call, and the branch for a missing response.\<close>

definition subscription_failed ::
  "js_error \<Rightarrow> StripeForm \<times> page \<Rightarrow> js_error option \<times> StripeForm \<times> page" where
  "subscription_failed e fp =
     and_then
       (displayError ''Failed to create subscription. Please try again.''
          (setButtonState ErrorState fp))
       (\<lambda>fp1. (None, emit_payment_failure e fp1))"

text \<open>Step 3 of the handler and the success handling after it.\<close>

definition confirm_and_settle ::
  "PaymentProviderFormOptions \<Rightarrow> submit_answers \<Rightarrow> StripeForm \<times> page \<Rightarrow>
   js_error option \<times> StripeForm \<times> page" where
  "confirm_and_settle options a fp =
     (case subscription (fst fp) of
        None \<Rightarrow>
          subscription_failed (Error ''Failed to create subscription'')
            (apsnd (effect (LogError ''Failed to create subscription'')) fp)
      | Some sub \<Rightarrow>
          if truthy (client_secret sub) then
            (let fp1 = apsnd (effect (ConfirmCardPayment (the (client_secret sub)))) fp
             in case confirmCardPayment_error a of
                  Some confirmError \<Rightarrow>
                    and_then
                      (displayError ''Failed to confirm payment. Please try again.''
                         (setButtonState ErrorState
                            (apsnd (effect (LogError ''Failed to confirm card payment'')) fp1)))
                      (\<lambda>fp2. (None, emit_payment_failure confirmError fp2))
                | None \<Rightarrow> (None, handleSuccessfulPayment options fp1))
          else (None, handleSuccessfulPayment options fp))"

text \<open>
  The body of the submit handler made by \<open>setupForm\<close>, run to its end on the answers
  of the three awaited calls, with what it throws (\<open>displayError\<close> is called outside every
  \<open>try\<close> block). Reading \<open>this.customer!.id\<close> of a missing customer throws inside the
  \<open>try\<close> block, before the subscription call is made.
\<close>

definition submitHandler_body ::
  "PaymentProviderFormOptions \<Rightarrow> submit_answers \<Rightarrow> StripeForm \<times> page \<Rightarrow>
   js_error option \<times> StripeForm \<times> page" where
  "submitHandler_body options a fp =
     (let fp1 = setButtonState Processing (apsnd (effect PreventDefault) fp)
      in if \<not> stripe (fst fp1) then
           displayError ''Failed to initialize payment form. Please try again.''
             (apsnd (effect (LogError ''Stripe not initialized'')) fp1)
         else if \<not> stripe_elements (fst fp1) then
           displayError ''Failed to initialize payment form. Please try again.''
             (apsnd (effect (LogError ''Elements not initialized'')) fp1)
         else
           (let fp2 = apsnd (effect ConfirmSetup) fp1
            in case confirmSetup_result a of
                 Inl setupError \<Rightarrow>
                   and_then
                     (displayError ''Failed to process payment. Please try again.''
                        (setButtonState Ready
                           (apsnd (effect (LogError ''Failed to confirm setup'')) fp2)))
                     (\<lambda>fp3. (None, emit_payment_failure setupError fp3))
               | Inr paymentMethodId \<Rightarrow>
                   (case customer (fst fp2) of
                      None \<Rightarrow>
                        subscription_failed (Failure ''TypeError'')
                          (apsnd (effect (LogError ''Subscription creation failed:'')) fp2)
                    | Some c \<Rightarrow>
                        (let (thrown, form3, pg3) =
                               createSubscription (currentProductId (fst fp2))
                                 (currentPaywallId (fst fp2)) (currentPlacementId (fst fp2))
                                 (cs_id c) paymentMethodId (subscription_response a) fp2
                         in case thrown of
                              Some e \<Rightarrow>
                                subscription_failed e
                                  (form3, effect (LogError ''Subscription creation failed:'') pg3)
                            | None \<Rightarrow> confirm_and_settle options a (form3, pg3)))))"

text \<open>
  A submit event reaching the listener function \<open>h\<close>: the handler runs on the form
  object it closes over, whose fields are read from and written back to the page. The
  handler is an \<open>async\<close> function: what it throws rejects a promise that nothing handles.
\<close>

definition run_submit_handler :: "nat \<Rightarrow> submit_answers \<Rightarrow> page \<Rightarrow> page" where
  "run_submit_handler h a pg =
     (case map_of (handlers pg) h of
        Some (SubmitHandler self options) \<Rightarrow>
          (case map_of (forms pg) self of
             Some (StripeF form) \<Rightarrow>
               (let (thrown, form1, pg1) = submitHandler_body options a (form, pg);
                    pg2 = (case thrown of None \<Rightarrow> pg1 | Some e \<Rightarrow> effect (UnhandledRejection e) pg1)
                in pg2\<lparr>forms := map_set self (StripeF form1) (forms pg2)\<rparr>)
           | _ \<Rightarrow> pg)
      | _ \<Rightarrow> pg)"

subsection \<open>Apple Pay\<close>

text \<open>
  What \<open>initializeApplePay\<close> computes with is a parameter of the model, so that
  whatever is proved holds for every such function. Modelled from the spec:
  \<open>getValueByPath\<close> (the value of a named macro read from a bundle's localized property
  map, or \<open>null\<close>) is not among the sources. \<open>extractCurrencyFromPrice\<close> is the function
  of \<open>utils/currencies\<close> with the default code \<open>usd\<close>. \<open>priceToCents\<close> is the
  floating-point expression
  \<open>Math.round(parseFloat(priceString.replace(/[^0-9.]/g, '')) * 100)\<close>, with \<open>None\<close> when
  \<open>parseFloat\<close> gives \<open>NaN\<close>.
\<close>

record utils =
  getValueByPath :: "(string \<times> (string \<times> string) list) list \<Rightarrow> string \<Rightarrow> string option"
  priceToCents :: "string \<Rightarrow> nat option"
  extractCurrencyFromPrice :: "string \<Rightarrow> string"

text \<open>
  The price block of \<open>initializeApplePay\<close>: the amount and the currency of the payment
  request, or the message of the error after which the method returns.
\<close>

definition applePay_price ::
  "utils \<Rightarrow> PaymentProviderFormOptions \<Rightarrow> ProductBundle \<Rightarrow> string + nat \<times> string" where
  "applePay_price utl options bundle =
     (let cfg = applePayConfig options;
          static = (case cfg of None \<Rightarrow> None | Some c \<Rightarrow> staticPrice c);
          currency = (case static of
                        Some sp \<Rightarrow> if sp_currency sp \<noteq> [] then sp_currency sp else ''usd''
                      | None \<Rightarrow> ''usd'');
          amount = (case static of Some sp \<Rightarrow> sp_amount sp | None \<Rightarrow> 0)
      in if static = None \<and> properties bundle \<noteq> None then
           (let priceMacro = (case cfg of
                                None \<Rightarrow> ''new-price''
                              | Some c \<Rightarrow> if truthy (priceMacro c) then the (priceMacro c)
                                          else ''new-price'');
                priceString = getValueByPath utl (the (properties bundle)) priceMacro
            in if truthy priceString then
                 (case priceToCents utl (the priceString) of
                    Some cents \<Rightarrow> Inr (cents, extractCurrencyFromPrice utl (the priceString))
                  | None \<Rightarrow> Inl ''Failed to parse price from macro'')
               else Inl ''No price found for macro in bundle properties'')
         else Inr (amount, currency))"

definition applePay_productName ::
  "utils \<Rightarrow> PaymentProviderFormOptions \<Rightarrow> ProductBundle \<Rightarrow> string" where
  "applePay_productName utl options bundle =
     (let cfg = applePayConfig options;
          label = (case cfg of None \<Rightarrow> None | Some c \<Rightarrow> productLabel c);
          macro = (case cfg of None \<Rightarrow> None | Some c \<Rightarrow> productMacro c)
      in if truthy label then the label
         else if truthy macro \<and> properties bundle \<noteq> None then
           (let productValue = getValueByPath utl (the (properties bundle)) (the macro)
            in if truthy productValue then the productValue else ''Subscription'')
         else if pb_name bundle \<noteq> [] then pb_name bundle
         else ''Subscription'')"

definition initializeApplePay ::
  "utils \<Rightarrow> PaymentProviderFormOptions \<Rightarrow> StripeForm \<times> page \<Rightarrow> StripeForm \<times> page" where
  "initializeApplePay utl options fp =
     (let (form, pg) = fp
      in if \<not> stripe form then
           (form, effect (LogError ''Failed to initialize Apple Pay: Stripe not initialized'') pg)
         else
           (case productBundle form of
              None \<Rightarrow>
                (form, effect (LogError ''Failed to initialize Apple Pay: Product bundle is missing'') pg)
            | Some bundle \<Rightarrow>
                (case applePay_price utl options bundle of
                   Inl message \<Rightarrow> (form, effect (LogError message) pg)
                 | Inr (amount, currency) \<Rightarrow>
                     (let cfg = applePayConfig options
                      in (form\<lparr>paymentRequest :=
                                  Some \<lparr>pr_country = ''US'', pr_currency = currency,
                                        pr_label = applePay_productName utl options bundle,
                                        pr_amount = amount,
                                        pr_requestPayerName =
                                          (case cfg of None \<Rightarrow> False | Some c \<Rightarrow> requestPayerName c),
                                        pr_requestPayerEmail =
                                          (case cfg of None \<Rightarrow> False | Some c \<Rightarrow> requestPayerEmail c),
                                        pr_requestPayerPhone =
                                          (case cfg of None \<Rightarrow> False | Some c \<Rightarrow> requestPayerPhone c)\<rparr>\<rparr>,
                          pg)))))"

text \<open>
  The callback of \<open>canMakePayment()\<close>, which exists only once the payment request has been
  made: when Apple Pay is available the button is revealed and its click listener
  registered.
\<close>

definition canMakePayment_then ::
  "nat \<Rightarrow> PaymentProviderFormOptions \<Rightarrow> bool \<Rightarrow> page \<Rightarrow> page" where
  "canMakePayment_then self options available pg =
     (case map_of (forms pg) self of
        Some (StripeF form) \<Rightarrow>
          (if paymentRequest form = None \<or> \<not> available then pg
           else
             (let pg1 = (case applePayConfig options of
                           Some c \<Rightarrow> if onApplePayAvailable c then effect ApplePayAvailable pg else pg
                         | None \<Rightarrow> pg);
                  pg2 = effect (Emit ''apple_pay_available''
                                  (ApplePayButton (ids_applePayButton (elementIDs form)))) pg1;
                  button = (case ids_applePayButton (elementIDs form) of
                              None \<Rightarrow> ''undefined'' | Some i \<Rightarrow> i)
              in if getElementById button pg2 \<noteq> None then
                   (let h = next_ref pg2;
                        pg3 = (effect (ShowElement button) pg2)
                                \<lparr>handlers := map_set h (ApplePayClick self) (handlers pg2),
                                 next_ref := Suc h\<rparr>;
                        form1 = form\<lparr>applePayButton := Some button, applePayButtonHandler := Some h\<rparr>
                    in (addEventListener button ''click'' h pg3)
                         \<lparr>forms := map_set self (StripeF form1) (forms pg3)\<rparr>)
                 else effect (LogError ''Apple Pay button element not found with ID: '') pg2))
      | _ \<Rightarrow> pg)"

subsection \<open>Showing a form\<close>

text \<open>
  \<open>show\<close> awaits the customer call once. \<open>StripeForm_show_begin\<close> is the method up to
  that call: it has returned before it, thrown before it (the promise of \<open>show\<close> is then
  rejected), or waits for it. \<open>StripeForm_show_resume\<close> is the rest, run when the call
  settles.
\<close>

datatype progress = Returned | Thrown js_error | Waiting

definition StripeForm_show_begin ::
  "string \<Rightarrow> string option \<Rightarrow> string option \<Rightarrow> PaymentProviderFormOptions \<Rightarrow>
   StripeSubscriptionOptions option \<Rightarrow> ProductBundle option \<Rightarrow>
   StripeForm \<times> page \<Rightarrow> progress \<times> StripeForm \<times> page" where
  "StripeForm_show_begin productId paywallId placementId options subscriptionOpts bundle fp =
     (let (form, pg) = fp;
          form1 = form\<lparr>productBundle := bundle, currentProductId := Some productId,
                       currentPaywallId := paywallId, currentPlacementId := placementId,
                       subscriptionOptions := subscriptionOpts\<rparr>;
          pg1 = effect (Emit ''payment_form_initialized'' (Selector ''#apphud-stripe-payment-form'')) pg;
          form2 = form1\<lparr>sf_buttonStateSetter := buttonStateSetter options\<rparr>;
          form3 = form2\<lparr>elementIDs := detect_ids options form2 pg1\<rparr>
      in if \<not> applePay options then
           (case querySelector_id (ids_submit (elementIDs form3)) pg1 of
              Inl e \<Rightarrow> (Thrown e, form3, pg1)
            | Inr None \<Rightarrow> (Returned, form3, effect (LogError ''Submit button is required.'') pg1)
            | Inr (Some el) \<Rightarrow>
                (Waiting,
                 createCustomer_request options
                   (setButtonState Loading (form3\<lparr>submit := Some el\<rparr>, pg1))))
         else (Waiting, createCustomer_request options (form3, pg1)))"

definition StripeForm_show_resume ::
  "utils \<Rightarrow> nat \<Rightarrow> PaymentProviderFormOptions \<Rightarrow> CustomerSetup option api_result \<Rightarrow>
   StripeForm \<times> page \<Rightarrow> js_error option \<times> StripeForm \<times> page" where
  "StripeForm_show_resume utl self options response fp =
     (let (rejected, form5, pg5) = createCustomer_settled response fp
      in case rejected of
           Some e \<Rightarrow> (Some e, form5, pg5)
         | None \<Rightarrow>
             if \<not> isActive form5 then (None, form5, pg5)
             else if \<not> applePay options then
               and_then (initStripe options (form5, pg5))
                 (\<lambda>fp6. (None, setupForm self options fp6))
             else (None, initializeApplePay utl options (form5, pg5)))"

subsection \<open>PaddleForm\<close>

text \<open>
  \<open>initializePaddleInstance\<close> awaits the load of the library. Up to there it checks the
  token; a missing token is thrown, caught and logged at once. From there, when the load
  has settled, it stores what the load gave and logs a failed load. The constructor calls
  the method and does not wait for it: \<open>pf_loading\<close> says that this first load is still
  under way.
\<close>

definition initializePaddle_begin :: "PaddleForm \<times> page \<Rightarrow> bool \<times> PaddleForm \<times> page" where
  "initializePaddle_begin fp =
     (let (form, pg) = fp
      in if \<not> truthy (pp_token (pf_provider form))
         then (False, form, effect (LogError ''Failed to initialize Paddle'') pg)
         else (True, form, pg))"

definition initializePaddle_settled :: "bool \<Rightarrow> PaddleForm \<times> page \<Rightarrow> PaddleForm \<times> page" where
  "initializePaddle_settled loaded fp =
     (let (form, pg) = fp
      in if loaded then (form\<lparr>paddle := True\<rparr>, pg)
         else (form\<lparr>paddle := False\<rparr>, effect (LogError ''Failed to initialize Paddle'') pg))"

definition initializePaddleInstance :: "bool \<Rightarrow> PaddleForm \<times> page \<Rightarrow> PaddleForm \<times> page" where
  "initializePaddleInstance loaded fp =
     (let (awaiting, form, pg) = initializePaddle_begin fp
      in if awaiting then initializePaddle_settled loaded (form, pg) else (form, pg))"

definition new_PaddleForm :: "User \<Rightarrow> PaymentProvider \<Rightarrow> page \<Rightarrow> PaddleForm \<times> page" where
  "new_PaddleForm u provider pg =
     (let (awaiting, form, pg1) =
            initializePaddle_begin
              (\<lparr>pf_user = u, pf_provider = provider, paddle = False, pf_loading = False,
                pf_currentOptions = None, pf_subscription = None\<rparr>, pg)
      in (form\<lparr>pf_loading := awaiting\<rparr>, pg1))"

text \<open>The load started by the constructor settles.\<close>

definition first_load_settles :: "bool \<Rightarrow> PaddleForm \<times> page \<Rightarrow> PaddleForm \<times> page" where
  "first_load_settles loaded fp =
     (if pf_loading (fst fp)
      then initializePaddle_settled loaded (apfst (\<lambda>form. form\<lparr>pf_loading := False\<rparr>) fp)
      else fp)"

definition paddle_setButtonState :: "button_state \<Rightarrow> PaddleForm \<times> page \<Rightarrow> PaddleForm \<times> page" where
  "paddle_setButtonState st fp =
     (case pf_currentOptions (fst fp) of
        Some options \<Rightarrow> if buttonStateSetter options then apsnd (effect (ButtonSetter st)) fp else fp
      | None \<Rightarrow> fp)"

text \<open>\<open>this.currentOptions?.id\<close>\<close>

definition pf_currentOptions_id :: "PaddleForm \<Rightarrow> string option" where
  "pf_currentOptions_id form =
     (case pf_currentOptions form of None \<Rightarrow> None | Some options \<Rightarrow> opt_id options)"

definition PaddleForm_show_begin ::
  "string \<Rightarrow> PaymentProviderFormOptions \<Rightarrow> PaddleForm \<times> page \<Rightarrow> PaddleForm \<times> page" where
  "PaddleForm_show_begin productId options fp =
     (let (form, pg) = fp
      in (form\<lparr>pf_currentOptions := Some options\<rparr>,
          effect (CreateSubscription (Some productId) None) pg))"

text \<open>
  The rest of \<open>show\<close>, from the moment the subscription call settles. The load started
  by the constructor is taken to settle while that call is under way.
\<close>

definition PaddleForm_show_resume ::
  "PaymentProviderFormOptions \<Rightarrow> backend \<Rightarrow> PaddleForm \<times> page \<Rightarrow>
   js_error option \<times> PaddleForm \<times> page" where
  "PaddleForm_show_resume options b fp =
     (let (form1, pg1) = first_load_settles (paddle_loaded b) fp
      in case createSubscription_response b of
           Rejected e \<Rightarrow> (Some e, form1, pg1)
         | Resolved sub \<Rightarrow>
             (let form2 = form1\<lparr>pf_subscription := sub\<rparr>
              in if sub = None then
                   (None, form2,
                    effect (LogError ''Failed to create subscription'')
                      (effect (LogError ''Failed to create subscription for product'') pg1))
                 else
                   (let pg2 = effect (Emit ''payment_form_initialized''
                                  (Selector (''#'' @ (case opt_id options of None \<Rightarrow> ''undefined''
                                                      | Some i \<Rightarrow> i)))) pg1;
                        (form3, pg3) = (if \<not> paddle form2
                                        then initializePaddleInstance (paddle_reloaded b) (form2, pg2)
                                        else (form2, pg2))
                    in if \<not> paddle form3 then
                         (None, form3, effect (LogError ''Paddle failed to initialize'') pg3)
                       else if \<not> truthy (pf_currentOptions_id form3) then
                         (None, form3, effect (LogError ''Paddle form id is required'') pg3)
                       else
                         (let fp4 = apsnd (effect OpenCheckout)
                                      (paddle_setButtonState Processing (form3, pg3));
                              fp5 = (case checkout_open_error b of
                                       Some e \<Rightarrow>
                                         paddle_setButtonState Ready
                                           (apsnd (effect (LogError ''Failed to open Paddle checkout:'')) fp4)
                                     | None \<Rightarrow> fp4);
                              fp6 = apsnd (effect (Emit ''payment_form_ready'' NoData))
                                      (paddle_setButtonState Ready fp5)
                          in (None, fst fp6, snd fp6)))))"

subsection \<open>FormBuilder\<close>

record FormBuilder =
  fb_provider :: PaymentProvider
  fb_user :: User
  fb_events :: "string list"
  currentForms :: "(string \<times> nat) list"

definition new_FormBuilder :: "PaymentProvider \<Rightarrow> User \<Rightarrow> FormBuilder" where
  "new_FormBuilder provider u =
     \<lparr>fb_provider = provider, fb_user = u, fb_events = [], currentForms = []\<rparr>"

definition getFormKey :: "string \<Rightarrow> PaymentProviderFormOptions \<Rightarrow> string" where
  "getFormKey provider options =
     (let formType = (if provider = ''stripe'' \<and> applePay options then ''apple_pay'' else ''default'')
      in provider @ '':'' @ formType)"

text \<open>\<open>cleanupFormListeners\<close> on the form object behind a reference, if it is a Stripe form.\<close>

definition cleanup_form :: "nat \<Rightarrow> page \<Rightarrow> page" where
  "cleanup_form r pg =
     (case map_of (forms pg) r of
        Some (StripeF form) \<Rightarrow>
          (let (form1, pg1) = cleanupFormListeners (form, pg)
           in pg1\<lparr>forms := map_set r (StripeF form1) (forms pg1)\<rparr>)
      | _ \<Rightarrow> pg)"

definition cleanupAll :: "FormBuilder \<times> page \<Rightarrow> FormBuilder \<times> page" where
  "cleanupAll bp =
     (let (b, pg) = bp
      in (b\<lparr>currentForms := []\<rparr>, fold cleanup_form (map snd (currentForms b)) pg))"

definition cleanup :: "string option \<Rightarrow> FormBuilder \<times> page \<Rightarrow> FormBuilder \<times> page" where
  "cleanup formKey bp =
     (if truthy formKey then
        (let (b, pg) = bp
         in case map_of (currentForms b) (the formKey) of
              Some r \<Rightarrow>
                (b\<lparr>currentForms := filter (\<lambda>kv. fst kv \<noteq> the formKey) (currentForms b)\<rparr>,
                 cleanup_form r pg)
            | None \<Rightarrow> (b, pg))
      else cleanupAll bp)"

definition on :: "string \<Rightarrow> FormBuilder \<Rightarrow> FormBuilder" where
  "on eventName b = b\<lparr>fb_events := fb_events b @ [eventName]\<rparr>"

text \<open>\<open>bundle?.properties?.introductory_offer\<close>\<close>

definition introductory_offer :: "ProductBundle option \<Rightarrow> (string \<times> string) list option" where
  "introductory_offer bundle =
     (case bundle of
        None \<Rightarrow> None
      | Some bd \<Rightarrow> (case properties bd of None \<Rightarrow> None | Some props \<Rightarrow> map_of props ''introductory_offer''))"

text \<open>
  \<open>show\<close> of the builder. Its promise settles with that of the form's \<open>show\<close>, which
  awaits one call of the back end. \<open>FormBuilder_show_begin\<close> runs up to that call: it
  either has finished (with the reason, when the promise is rejected) or leaves the new
  form waiting. \<open>FormBuilder_show_resume\<close> runs the rest on the waiting form when the call
  settles. \<open>FormBuilder_show\<close> is the whole call with nothing else running in between.
\<close>

datatype pending = Finished "js_error option" | Awaiting nat

definition FormBuilder_show_begin ::
  "string \<Rightarrow> string option \<Rightarrow> string option \<Rightarrow> PaymentProviderFormOptions \<Rightarrow>
   ProductBundle option \<Rightarrow> backend \<Rightarrow> FormBuilder \<times> page \<Rightarrow> pending \<times> FormBuilder \<times> page" where
  "FormBuilder_show_begin productId paywallId placementId options bundle bk bp =
     (let formKey = getFormKey (pp_kind (fb_provider (fst bp))) options;
          (b, pg) = cleanup (Some formKey) bp;
          introOffer = introductory_offer bundle;
          kind = pp_kind (fb_provider b)
      in if kind = ''stripe'' then
           (let subscriptionOpts =
                  (case introOffer of
                     Some offer \<Rightarrow>
                       Some \<lparr>trialDays = (if truthy (map_of offer ''stripe_free_trial_days'')
                                          then Some (parseInt (the (map_of offer ''stripe_free_trial_days'')))
                                          else None),
                             couponId = map_of offer ''stripe_coupon_id''\<rparr>
                   | None \<Rightarrow> None);
                (form, pg1) = new_StripeForm (fb_user b) (fb_provider b) bk pg;
                self = next_ref pg1;
                pg2 = pg1\<lparr>next_ref := Suc self\<rparr>;
                b1 = b\<lparr>currentForms := map_set formKey self (currentForms b)\<rparr>;
                (reached, form1, pg3) =
                  StripeForm_show_begin productId paywallId placementId options subscriptionOpts
                    bundle (form, pg2)
            in (case reached of
                  Returned \<Rightarrow> Finished None
                | Thrown e \<Rightarrow> Finished (Some e)
                | Waiting \<Rightarrow> Awaiting self,
                b1, pg3\<lparr>forms := map_set self (StripeF form1) (forms pg3)\<rparr>))
         else if kind = ''paddle'' then
           (let (form, pg1) = new_PaddleForm (fb_user b) (fb_provider b) pg;
                self = next_ref pg1;
                pg2 = pg1\<lparr>next_ref := Suc self\<rparr>;
                b1 = b\<lparr>currentForms := map_set formKey self (currentForms b)\<rparr>;
                (form1, pg3) = PaddleForm_show_begin productId options (form, pg2)
            in (Awaiting self, b1, pg3\<lparr>forms := map_set self (PaddleF form1) (forms pg3)\<rparr>))
         else (Finished (Some (Error (''Unsupported type '' @ kind))), b, pg))"

definition FormBuilder_show_resume ::
  "utils \<Rightarrow> PaymentProviderFormOptions \<Rightarrow> backend \<Rightarrow> nat \<Rightarrow> page \<Rightarrow> js_error option \<times> page" where
  "FormBuilder_show_resume utl options bk self pg =
     (case map_of (forms pg) self of
        Some (StripeF form) \<Rightarrow>
          (let (rejected, form1, pg1) =
                 StripeForm_show_resume utl self options (createCustomer_response bk) (form, pg)
           in (rejected, pg1\<lparr>forms := map_set self (StripeF form1) (forms pg1)\<rparr>))
      | Some (PaddleF form) \<Rightarrow>
          (let (rejected, form1, pg1) = PaddleForm_show_resume options bk (form, pg)
           in (rejected, pg1\<lparr>forms := map_set self (PaddleF form1) (forms pg1)\<rparr>))
      | None \<Rightarrow> (None, pg))"

definition FormBuilder_show ::
  "utils \<Rightarrow> string \<Rightarrow> string option \<Rightarrow> string option \<Rightarrow> PaymentProviderFormOptions \<Rightarrow>
   ProductBundle option \<Rightarrow> backend \<Rightarrow> FormBuilder \<times> page \<Rightarrow> js_error option \<times> FormBuilder \<times> page" where
  "FormBuilder_show utl productId paywallId placementId options bundle bk bp =
     (let (waiting, b, pg) = FormBuilder_show_begin productId paywallId placementId options bundle bk bp
      in case waiting of
           Finished rejected \<Rightarrow> (rejected, b, pg)
         | Awaiting self \<Rightarrow>
             (let (rejected, pg1) = FormBuilder_show_resume utl options bk self pg
              in (rejected, b, pg1)))"

section \<open>The SDK instance\<close>

text \<open>
  Every \<open>logError\<close> call of the modelled methods is one constructor; the log is the list
  of the errors reported so far, oldest first.
\<close>

datatype sdk_error =
    NotInitialized
  | PlacementNotFound string "string list"
  | NoPlacementOrPaywall string
  | NoBundleAtIndex js_number
  | NoProviderForStore string
  | NoProvidersForBundle
  | ProviderSetupFailed
  | PriceMacrosMissing string
  | BundleHasNoProducts
  | ApiKeyMissing
  | ProviderNotAvailable string
  | NoProviderAvailable
  | ProductRequired
  | PaywallRequired
  | PlacementRequired
  | ProductAbsent
  | NoUser
  | CheckoutNotTracked
  | UserIDNotAvailable
  | Caught js_error

text \<open>
  The fields of \<open>ApphudSDK\<close> that the selection logic reads and writes, with the page's
  cookie store, the error log and the lifecycle events emitted, which the methods change
  as side effects.

  Modelled from the spec: the cookie module (\<open>getCookie\<close>, \<open>setCookie\<close>) is a scoped
  key-value store with a time to live; \<open>setCookie\<close> stores the value under the key and
  \<open>getCookie\<close> reads it back, \<open>null\<close> when absent. Expiry is not represented.
\<close>

record sdk =
  placements :: "Placement list"
  user :: "User option"
  currentPaymentProviders :: "(string \<times> PaymentProvider) list"
  priv_currentProducts :: "(string \<times> Product) list"
  priv_currentPlacement :: "Placement option"
  priv_currentPaywall :: "Paywall option"
  priv_currentBundle :: "ProductBundle option"
  isInitialized :: bool
  reportedPlacementErrors :: "string set"
  cookies :: "cookie_key \<Rightarrow> string option"
  errors :: "sdk_error list"
  product_changed :: "Product option list"

definition logError :: "sdk_error \<Rightarrow> sdk \<Rightarrow> sdk" where
  "logError e s = s\<lparr>errors := errors s @ [e]\<rparr>"

definition checkInitialization :: "sdk \<Rightarrow> sdk" where
  "checkInitialization s = (if \<not> isInitialized s then logError NotInitialized s else s)"

definition getCookie :: "cookie_key \<Rightarrow> sdk \<Rightarrow> string option" where
  "getCookie k s = cookies s k"

definition setCookie :: "cookie_key \<Rightarrow> string \<Rightarrow> sdk \<Rightarrow> sdk" where
  "setCookie k v s = s\<lparr>cookies := (cookies s)(k \<mapsto> v)\<rparr>"

subsection \<open>findPlacementByID\<close>

definition findPlacementByID :: "string \<Rightarrow> sdk \<Rightarrow> Placement option \<times> sdk" where
  "findPlacementByID i s =
     (let placement = js_find (\<lambda>elm. pl_identifier elm = i) (placements s) in
      if placement = None then
        (if i \<notin> reportedPlacementErrors s then
           (let existingIdentifiers = map pl_identifier (placements s) in
            (placement,
             logError (PlacementNotFound i existingIdentifiers)
               (s\<lparr>reportedPlacementErrors := insert i (reportedPlacementErrors s)\<rparr>)))
         else (placement, s))
      else (placement, s))"

text \<open>
  The life of an instance, as far as placement lookups go: lookups by identifier, and
  catalog refreshes that replace the placement list.
\<close>

datatype lookup_op = Lookup string | Refresh "Placement list"

fun run_lookups :: "lookup_op list \<Rightarrow> sdk \<Rightarrow> sdk" where
  "run_lookups [] s = s"
| "run_lookups (Lookup i # ops) s = run_lookups ops (snd (findPlacementByID i s))"
| "run_lookups (Refresh ps # ops) s = run_lookups ops (s\<lparr>placements := ps\<rparr>)"

text \<open>Whether some lookup of \<open>i\<close> in the sequence misses, given the placements at its start.\<close>

fun lookup_misses :: "string \<Rightarrow> Placement list \<Rightarrow> lookup_op list \<Rightarrow> bool" where
  "lookup_misses i ps [] = False"
| "lookup_misses i ps (Lookup j # ops) =
     ((j = i \<and> js_find (\<lambda>elm. pl_identifier elm = i) ps = None) \<or> lookup_misses i ps ops)"
| "lookup_misses i ps (Refresh ps' # ops) = lookup_misses i ps' ops"

text \<open>How many times the lookup failure of identifier \<open>i\<close> was reported.\<close>

definition reports :: "string \<Rightarrow> sdk_error list \<Rightarrow> nat" where
  "reports i es = length (filter (\<lambda>e. case e of PlacementNotFound j _ \<Rightarrow> j = i | _ \<Rightarrow> False) es)"

lemma reports_append: "reports i (es @ fs) = reports i es + reports i fs"
  by (simp add: reports_def)

lemma reports_singleton:
  "reports i [PlacementNotFound j xs] = (if j = i then 1 else 0)"
  by (simp add: reports_def)

lemma findPlacementByID_placements: "placements (snd (findPlacementByID i s)) = placements s"
  by (simp add: findPlacementByID_def logError_def Let_def)

lemma findPlacementByID_reported:
  "reportedPlacementErrors (snd (findPlacementByID j s)) =
     (if js_find (\<lambda>elm. pl_identifier elm = j) (placements s) = None
      then insert j (reportedPlacementErrors s) else reportedPlacementErrors s)"
  by (auto simp: findPlacementByID_def logError_def Let_def)

lemma findPlacementByID_reports:
  "reports i (errors (snd (findPlacementByID j s))) =
     reports i (errors s) +
     (if j = i \<and> js_find (\<lambda>elm. pl_identifier elm = j) (placements s) = None
         \<and> i \<notin> reportedPlacementErrors s then 1 else 0)"
  by (auto simp: findPlacementByID_def logError_def Let_def reports_append reports_singleton)

lemma run_lookups_reports:
  "reports i (errors s) = (if i \<in> reportedPlacementErrors s then 1 else 0) \<Longrightarrow>
   reports i (errors (run_lookups ops s)) =
     (if i \<in> reportedPlacementErrors s \<or> lookup_misses i (placements s) ops then 1 else 0)"
proof (induction ops arbitrary: s)
  case Nil
  then show ?case by simp
next
  case (Cons op ops)
  show ?case
  proof (cases op)
    case (Lookup j)
    let ?s' = "snd (findPlacementByID j s)"
    have inv: "reports i (errors ?s') = (if i \<in> reportedPlacementErrors ?s' then 1 else 0)"
      using Cons.prems by (auto simp: findPlacementByID_reports findPlacementByID_reported)
    show ?thesis
      using Cons.IH [OF inv] Lookup
      by (auto simp: findPlacementByID_placements findPlacementByID_reported)
  next
    case (Refresh ps)
    have inv: "reports i (errors (s\<lparr>placements := ps\<rparr>)) =
        (if i \<in> reportedPlacementErrors (s\<lparr>placements := ps\<rparr>) then 1 else 0)"
      using Cons.prems by simp
    show ?thesis
      using Cons.IH [OF inv] Refresh by simp
  qed
qed

section \<open>Placement lookup failures are reported once\<close>

text \<open>
  C9. On an instance that has reported nothing yet, after any sequence of placement
  lookups and catalog refreshes the lookup failure of an identifier has been reported
  exactly once when some lookup of that identifier missed, and not at all otherwise:
  the first miss reports, every later miss of the same identifier is silent, and each
  other missing identifier has its own single report.
\<close>

theorem placement_lookup_failure_reported_once:
  assumes "reportedPlacementErrors s = {}" and "errors s = []"
  shows "reports i (errors (run_lookups ops s)) =
           (if lookup_misses i (placements s) ops then 1 else 0)"
  using run_lookups_reports [of i s ops] assms by (simp add: reports_def)

definition new_sdk :: "(cookie_key \<Rightarrow> string option) \<Rightarrow> sdk" where
  "new_sdk jar =
     \<lparr>placements = [], user = None, currentPaymentProviders = [], priv_currentProducts = [],
      priv_currentPlacement = None, priv_currentPaywall = None, priv_currentBundle = None,
      isInitialized = False, reportedPlacementErrors = {}, cookies = jar, errors = [],
      product_changed = []\<rparr>"

definition main_placement :: Placement where
  "main_placement = \<lparr>pl_id = ''p1'', pl_identifier = ''main'', paywalls = []\<rparr>"

theorem placement_lookup_failure_reported_once_witness:
  "reportedPlacementErrors ((new_sdk Map.empty)\<lparr>placements := [main_placement]\<rparr>) = {} \<and>
   errors ((new_sdk Map.empty)\<lparr>placements := [main_placement]\<rparr>) = [] \<and>
   reports ''promo''
     (errors (run_lookups [Lookup ''promo'', Lookup ''main'', Lookup ''promo'', Lookup ''sale'']
        ((new_sdk Map.empty)\<lparr>placements := [main_placement]\<rparr>))) = 1 \<and>
   reports ''main''
     (errors (run_lookups [Lookup ''promo'', Lookup ''main'', Lookup ''promo'', Lookup ''sale'']
        ((new_sdk Map.empty)\<lparr>placements := [main_placement]\<rparr>))) = 0"
  using placement_lookup_failure_reported_once
          [of "(new_sdk Map.empty)\<lparr>placements := [main_placement]\<rparr>" "''promo''"
              "[Lookup ''promo'', Lookup ''main'', Lookup ''promo'', Lookup ''sale'']"]
        placement_lookup_failure_reported_once
          [of "(new_sdk Map.empty)\<lparr>placements := [main_placement]\<rparr>" "''main''"
              "[Lookup ''promo'', Lookup ''main'', Lookup ''promo'', Lookup ''sale'']"]
  by (simp add: new_sdk_def main_placement_def)

section \<open>Selecting a placement and a bundle\<close>

subsection \<open>updateProductsAndProviders\<close>

text \<open>The body of the \<open>forEach\<close> over the bundle's products, and the loop.\<close>

definition process_product :: "PaymentProvider list \<Rightarrow> Product \<Rightarrow> sdk \<Rightarrow> sdk" where
  "process_product paymentProviders product s =
     (let requiredStore = store product;
          compatibleProvider = js_find (\<lambda>provider. pp_kind provider = requiredStore) paymentProviders
      in case compatibleProvider of
           Some provider \<Rightarrow>
             s\<lparr>priv_currentProducts := map_set requiredStore product (priv_currentProducts s),
               currentPaymentProviders := map_set requiredStore provider (currentPaymentProviders s)\<rparr>
         | None \<Rightarrow> logError (NoProviderForStore requiredStore) s)"

fun process_products :: "PaymentProvider list \<Rightarrow> Product list \<Rightarrow> sdk \<Rightarrow> sdk" where
  "process_products paymentProviders [] s = s"
| "process_products paymentProviders (product # rest) s =
     process_products paymentProviders rest (process_product paymentProviders product s)"

definition updateProductsAndProviders ::
  "ProductBundle \<Rightarrow> PaymentProvider list \<Rightarrow> sdk \<Rightarrow> bool \<times> sdk" where
  "updateProductsAndProviders bundle paymentProviders s =
     (let s1 = s\<lparr>priv_currentProducts := [], currentPaymentProviders := []\<rparr>;
          s2 = process_products paymentProviders (products bundle) s1
      in if length (currentPaymentProviders s2) = 0
         then (False, logError NoProvidersForBundle s2)
         else (True, s2))"

text \<open>\<open>this.user?.payment_providers || []\<close>\<close>

definition user_payment_providers :: "sdk \<Rightarrow> PaymentProvider list" where
  "user_payment_providers s =
     (case user s of None \<Rightarrow> []
      | Some u \<Rightarrow> (case payment_providers u of None \<Rightarrow> [] | Some ps \<Rightarrow> ps))"

subsection \<open>setCurrentItems\<close>

definition macrosToCheck :: "string list" where
  "macrosToCheck = [''new-price'', ''old-price'', ''full-price'', ''discount'', ''duration'',
                    ''custom-1'', ''custom-2'', ''custom-3'']"

text \<open>
  Some language of the property map has a macro of the list with a non-empty value
  (an empty string is falsy).
\<close>

definition hasPriceMacros :: "(string \<times> (string \<times> string) list) list \<Rightarrow> bool" where
  "hasPriceMacros props =
     list_ex (\<lambda>langProps.
        list_ex (\<lambda>macro. case map_of langProps macro of None \<Rightarrow> False | Some v \<Rightarrow> v \<noteq> [])
          macrosToCheck)
       (map snd props)"

definition setCurrentItems :: "string \<Rightarrow> js_number \<Rightarrow> sdk \<Rightarrow> sdk" where
  "setCurrentItems placementID bundleIndex s =
     (let (found, s0) = findPlacementByID placementID s;
          s1 = s0\<lparr>priv_currentPlacement := found\<rparr>
      in case found of
           None \<Rightarrow> s1
         | Some placement \<Rightarrow>
            (case paywalls placement of
               [] \<Rightarrow> s1
             | paywall # _ \<Rightarrow>
                (let s2 = s1\<lparr>priv_currentPaywall := Some paywall\<rparr>
                 in case js_index (items_v2 paywall) bundleIndex of
                      None \<Rightarrow> s2
                    | Some bundle \<Rightarrow>
                       (let s3 = s2\<lparr>priv_currentBundle := Some bundle\<rparr>;
                            s4 = (case properties bundle of
                                    None \<Rightarrow> s3
                                  | Some props \<Rightarrow>
                                      if \<not> hasPriceMacros props
                                      then logError (PriceMacrosMissing placementID) s3
                                      else s3)
                        in if length (products bundle) > 0
                           then snd (updateProductsAndProviders bundle (user_payment_providers s4) s4)
                           else logError BundleHasNoProducts s4))))"

subsection \<open>selectPlacementProduct and getSavedPlacementBundleIndex\<close>

text \<open>\<open>currentProduct\<close>: the first value of the product map, or \<open>null\<close>.\<close>

definition currentProduct :: "sdk \<Rightarrow> Product option \<times> sdk" where
  "currentProduct s =
     (let s1 = checkInitialization s
      in (case priv_currentProducts s1 of [] \<Rightarrow> None | kv # _ \<Rightarrow> Some (snd kv), s1))"

definition emit_product_changed :: "Product option \<Rightarrow> sdk \<Rightarrow> sdk" where
  "emit_product_changed e s = s\<lparr>product_changed := product_changed s @ [e]\<rparr>"

text \<open>
  The method returns nothing. The model returns, beside the new state, which of its
  \<open>return\<close> statements ended the call: the three failures in the order of the source,
  or the end of the body.
\<close>

datatype select_result = NoPlacement | NoBundle | NoProviders | Selected

definition selectPlacementProduct :: "string \<Rightarrow> js_number \<Rightarrow> sdk \<Rightarrow> select_result \<times> sdk" where
  "selectPlacementProduct placementID bundleIndex s =
     (let s0 = checkInitialization s;
          (found, s1) = findPlacementByID placementID s0
      in case (case found of None \<Rightarrow> None
               | Some placement \<Rightarrow> (case paywalls placement of [] \<Rightarrow> None | paywall # _ \<Rightarrow> Some paywall)) of
           None \<Rightarrow> (NoPlacement, logError (NoPlacementOrPaywall placementID) s1)
         | Some paywall \<Rightarrow>
            (case js_index (items_v2 paywall) bundleIndex of
               None \<Rightarrow> (NoBundle, logError (NoBundleAtIndex bundleIndex) s1)
             | Some selectedBundle \<Rightarrow>
                (let (success, s2) =
                       updateProductsAndProviders selectedBundle (user_payment_providers s1) s1
                 in if \<not> success then (NoProviders, logError ProviderSetupFailed s2)
                    else
                      (let s3 = setCurrentItems placementID bundleIndex s2;
                           s4 = setCookie SelectedBundleIndex
                                  (placementID @ '','' @ number_to_string bundleIndex) s3;
                           (product, s5) = currentProduct s4
                       in (Selected, emit_product_changed product s5)))))"

definition getSavedPlacementBundleIndex :: "sdk \<Rightarrow> string option \<times> js_number" where
  "getSavedPlacementBundleIndex s =
     (case getCookie SelectedBundleIndex s of
        Some savedIndices \<Rightarrow>
          (let arr = map trim (split CHR '','' savedIndices)
           in if length arr = 2 then (Some (arr ! 0), parseInt (arr ! 1)) else (None, Num 0))
      | None \<Rightarrow> (None, Num 0))"

subsection \<open>A small catalog\<close>

text \<open>
  One Stripe provider; a paywall with a bundle holding a Stripe product and a bundle
  with no product; two placements showing it, the second with an identifier that starts
  with a space.
\<close>

definition stripe_provider :: PaymentProvider where
  "stripe_provider = \<lparr>pp_id = ''pp1'', pp_identifier = ''acct_1'', pp_kind = ''stripe'',
                       pp_token = Some ''pk_test''\<rparr>"

definition stripe_product :: Product where
  "stripe_product = \<lparr>prod_id = ''prod1'', base_plan_id = ''price_1'', store = ''stripe''\<rparr>"

definition monthly_bundle :: ProductBundle where
  "monthly_bundle = \<lparr>pb_id = ''b0'', pb_name = ''Monthly'', products = [stripe_product],
                      properties = Some [(''en'', [(''new-price'', ''$9.99'')])]\<rparr>"

definition empty_bundle :: ProductBundle where
  "empty_bundle = \<lparr>pb_id = ''b1'', pb_name = ''Empty'', products = [], properties = None\<rparr>"

definition demo_paywall :: Paywall where
  "demo_paywall = \<lparr>pw_id = ''pw1'', items_v2 = [monthly_bundle, empty_bundle]\<rparr>"

definition demo_user :: User where
  "demo_user = \<lparr>u_id = ''u1'', u_is_sandbox = False, u_placements = None,
                 payment_providers = Some [stripe_provider]\<rparr>"

definition demo_sdk :: sdk where
  "demo_sdk = (new_sdk Map.empty)
     \<lparr>placements := [\<lparr>pl_id = ''p1'', pl_identifier = ''main'', paywalls = [demo_paywall]\<rparr>,
                     \<lparr>pl_id = ''p2'', pl_identifier = '' promo'', paywalls = [demo_paywall]\<rparr>],
      user := Some demo_user, isInitialized := True\<rparr>"


definition selected_sdk :: sdk where
  "selected_sdk = snd (selectPlacementProduct ''main'' (Num 0) demo_sdk)"

subsection \<open>Strings: splitting, trimming and parsing decimal digits\<close>

lemma split_no_sep: "sep \<notin> set b \<Longrightarrow> split sep b = [b]"
  by (induction b) auto

lemma split_append_sep: "sep \<notin> set a \<Longrightarrow> split sep (a @ sep # b) = a # split sep b"
  by (induction a) auto

lemma of_char_digit_char: "d < 10 \<Longrightarrow> (of_char (digit_char d) :: nat) = 48 + d"
  by (simp add: digit_char_def)

lemma digits_chars: "c \<in> set (digits n) \<Longrightarrow> 48 \<le> (of_char c :: nat) \<and> (of_char c :: nat) \<le> 57"
proof (induction n rule: digits.induct)
  case (1 n)
  show ?case
  proof (cases "n < 10")
    case True
    with "1.prems" show ?thesis
      by (subst (asm) digits.simps) (simp add: of_char_digit_char)
  next
    case False
    with "1.prems" have "c \<in> set (digits (n div 10)) \<or> c = digit_char (n mod 10)"
      by (subst (asm) digits.simps) auto
    then show ?thesis using "1.IH" False by (auto simp: of_char_digit_char)
  qed
qed

lemma digits_nonempty: "digits n \<noteq> []"
  by (subst digits.simps) simp

lemma digit_value_dec: "48 \<le> (of_char c :: nat) \<Longrightarrow> (of_char c :: nat) \<le> 57 \<Longrightarrow> digit_value r c = Some (of_char c - 48)"
  by (simp add: digit_value_def)

lemma digits_value: "foldl (\<lambda>a c. a * 10 + the (digit_value 10 c)) 0 (digits n) = n"
proof (induction n rule: digits.induct)
  case (1 n)
  show ?case
  proof (cases "n < 10")
    case True
    then show ?thesis
      by (subst digits.simps) (simp add: digit_value_dec of_char_digit_char)
  next
    case False
    then have "digits n = digits (n div 10) @ [digit_char (n mod 10)]"
      by (subst digits.simps) simp
    then show ?thesis using "1.IH" False
      by (simp add: digit_value_dec of_char_digit_char)
  qed
qed

lemma not_space_digit: "48 \<le> (of_char c :: nat) \<Longrightarrow> (of_char c :: nat) \<le> 57 \<Longrightarrow> \<not> is_js_space c"
  by (auto simp: is_js_space_def)

lemma dropWhile_none: "\<forall>c \<in> set xs. \<not> P c \<Longrightarrow> dropWhile P xs = xs"
  by (cases xs) auto

lemma trim_digits: "trim (digits n) = digits n"
  by (simp add: trim_def dropWhile_none not_space_digit digits_chars)

lemma hd_digits: "48 \<le> (of_char (hd (digits n)) :: nat) \<and> (of_char (hd (digits n)) :: nat) \<le> 57"
  using digits_chars [of "hd (digits n)" n] digits_nonempty [of n] by simp

lemma parseInt_digits: "parseInt (digits n) = Num (int n)"
proof -
  have a: "dropWhile is_js_space (digits n) = digits n"
    by (simp add: dropWhile_none not_space_digit digits_chars)
  have b: "hd (digits n) \<noteq> CHR ''-''" "hd (digits n) \<noteq> CHR ''+''"
    using hd_digits [of n] by auto
  have c: "length (digits n) \<ge> 2 \<Longrightarrow> digits n ! 1 \<noteq> CHR ''x'' \<and> digits n ! 1 \<noteq> CHR ''X''"
    using digits_chars [of "digits n ! 1" n] by (auto simp: )
  have d: "takeWhile (\<lambda>c. digit_value 10 c \<noteq> None) (digits n) = digits n"
    by (rule takeWhile_eq_all_conv [THEN iffD2]) (auto simp: digit_value_dec dest: digits_chars)
  have e: "\<not> (length (digits n) \<ge> 2 \<and> hd (digits n) = CHR ''0'' \<and>
              (digits n ! 1 = CHR ''x'' \<or> digits n ! 1 = CHR ''X''))"
    using c by blast
  show ?thesis
    using b digits_nonempty [of n]
    by (simp add: parseInt_def Let_def a d e digits_value del: not_None_eq One_nat_def)
qed

lemma comma_not_digit: "CHR '','' \<notin> set (digits n)"
  using digits_chars [of "CHR '',''" n] by auto

subsection \<open>What each step leaves alone\<close>

lemma logError_frame [simp]:
  "placements (logError e s) = placements s"
  "user (logError e s) = user s"
  "currentPaymentProviders (logError e s) = currentPaymentProviders s"
  "priv_currentProducts (logError e s) = priv_currentProducts s"
  "priv_currentPlacement (logError e s) = priv_currentPlacement s"
  "priv_currentPaywall (logError e s) = priv_currentPaywall s"
  "priv_currentBundle (logError e s) = priv_currentBundle s"
  "cookies (logError e s) = cookies s"
  by (simp_all add: logError_def)

lemma checkInitialization_frame [simp]:
  "placements (checkInitialization s) = placements s"
  "user (checkInitialization s) = user s"
  "currentPaymentProviders (checkInitialization s) = currentPaymentProviders s"
  "priv_currentProducts (checkInitialization s) = priv_currentProducts s"
  "priv_currentPlacement (checkInitialization s) = priv_currentPlacement s"
  "priv_currentPaywall (checkInitialization s) = priv_currentPaywall s"
  "priv_currentBundle (checkInitialization s) = priv_currentBundle s"
  "cookies (checkInitialization s) = cookies s"
  by (simp_all add: checkInitialization_def)

lemma findPlacementByID_frame [simp]:
  "user (snd (findPlacementByID i s)) = user s"
  "currentPaymentProviders (snd (findPlacementByID i s)) = currentPaymentProviders s"
  "priv_currentProducts (snd (findPlacementByID i s)) = priv_currentProducts s"
  "priv_currentPlacement (snd (findPlacementByID i s)) = priv_currentPlacement s"
  "priv_currentPaywall (snd (findPlacementByID i s)) = priv_currentPaywall s"
  "priv_currentBundle (snd (findPlacementByID i s)) = priv_currentBundle s"
  "cookies (snd (findPlacementByID i s)) = cookies s"
  by (simp_all add: findPlacementByID_def Let_def)

lemma process_product_frame [simp]:
  "priv_currentPlacement (process_product pps p s) = priv_currentPlacement s"
  "priv_currentPaywall (process_product pps p s) = priv_currentPaywall s"
  "priv_currentBundle (process_product pps p s) = priv_currentBundle s"
  "cookies (process_product pps p s) = cookies s"
  by (simp_all add: process_product_def Let_def split: option.splits)

lemma process_products_frame [simp]:
  "priv_currentPlacement (process_products pps ps s) = priv_currentPlacement s"
  "priv_currentPaywall (process_products pps ps s) = priv_currentPaywall s"
  "priv_currentBundle (process_products pps ps s) = priv_currentBundle s"
  "cookies (process_products pps ps s) = cookies s"
  by (induction ps arbitrary: s; simp)+

lemma map_fst_map_set:
  "map fst (map_set k v m) = (if k \<in> set (map fst m) then map fst m else map fst m @ [k])"
  by (induction m) force+

lemma process_product_keys:
  "map fst (priv_currentProducts s) = map fst (currentPaymentProviders s) \<Longrightarrow>
   map fst (priv_currentProducts (process_product pps p s)) =
   map fst (currentPaymentProviders (process_product pps p s))"
  by (simp add: process_product_def Let_def map_fst_map_set split: option.splits)

lemma process_products_keys:
  "map fst (priv_currentProducts s) = map fst (currentPaymentProviders s) \<Longrightarrow>
   map fst (priv_currentProducts (process_products pps ps s)) =
   map fst (currentPaymentProviders (process_products pps ps s))"
  by (induction ps arbitrary: s) (simp_all add: process_product_keys)

lemma updateProductsAndProviders_frame [simp]:
  "priv_currentPlacement (snd (updateProductsAndProviders b pps s)) = priv_currentPlacement s"
  "priv_currentPaywall (snd (updateProductsAndProviders b pps s)) = priv_currentPaywall s"
  "priv_currentBundle (snd (updateProductsAndProviders b pps s)) = priv_currentBundle s"
  "cookies (snd (updateProductsAndProviders b pps s)) = cookies s"
  by (simp_all add: updateProductsAndProviders_def Let_def)

lemma updateProductsAndProviders_failure:
  assumes "\<not> fst (updateProductsAndProviders b pps s)"
  shows "priv_currentProducts (snd (updateProductsAndProviders b pps s)) = [] \<and>
         currentPaymentProviders (snd (updateProductsAndProviders b pps s)) = []"
proof -
  let ?s1 = "s\<lparr>priv_currentProducts := [], currentPaymentProviders := []\<rparr>"
  let ?s2 = "process_products pps (products b) ?s1"
  have keys: "map fst (priv_currentProducts ?s2) = map fst (currentPaymentProviders ?s2)"
    by (rule process_products_keys) simp
  from assms have "currentPaymentProviders ?s2 = []"
    by (simp add: updateProductsAndProviders_def Let_def split: if_splits)
  with keys show ?thesis
    by (simp add: updateProductsAndProviders_def Let_def)
qed


lemma currentProduct_cookies [simp]: "cookies (snd (currentProduct s)) = cookies s"
  by (simp add: currentProduct_def Let_def)

lemma emit_product_changed_cookies [simp]: "cookies (emit_product_changed e s) = cookies s"
  by (simp add: emit_product_changed_def)


section \<open>A failed selection\<close>

text \<open>
  C2, as stated, fails: after the first bundle of placement \<open>main\<close> was selected, selecting
  its second bundle, which has no product, ends at the provider failure, and both the
  product map and the provider map, which held the Stripe entries, are empty afterwards.
\<close>

theorem failed_selection_clears_maps_counterexample:
  "fst (selectPlacementProduct ''main'' (Num 1) selected_sdk) = NoProviders \<and>
   priv_currentProducts selected_sdk = [(''stripe'', stripe_product)] \<and>
   currentPaymentProviders selected_sdk = [(''stripe'', stripe_provider)] \<and>
   priv_currentProducts (snd (selectPlacementProduct ''main'' (Num 1) selected_sdk)) = [] \<and>
   currentPaymentProviders (snd (selectPlacementProduct ''main'' (Num 1) selected_sdk)) = []"
  by code_simp

text \<open>
  C2, amended. A call of \<open>selectPlacementProduct\<close> that fails leaves the current
  placement, paywall and bundle and the cookie store as they were. When it fails because
  the placement is unknown or has no paywall, or because the bundle index is out of
  range, the product map and the provider map are unchanged as well; when it fails
  because the bundle has no product with a compatible provider (an empty bundle
  included), both maps are empty afterwards.
\<close>

theorem failed_selection_state:
  assumes "selectPlacementProduct placementID bundleIndex s = (r, s')" and "r \<noteq> Selected"
  shows "priv_currentPlacement s' = priv_currentPlacement s \<and>
         priv_currentPaywall s' = priv_currentPaywall s \<and>
         priv_currentBundle s' = priv_currentBundle s \<and>
         cookies s' = cookies s \<and>
         (if r = NoProviders
          then priv_currentProducts s' = [] \<and> currentPaymentProviders s' = []
          else priv_currentProducts s' = priv_currentProducts s \<and>
               currentPaymentProviders s' = currentPaymentProviders s)"
proof -
  define found where "found = fst (findPlacementByID placementID (checkInitialization s))"
  define s1 where "s1 = snd (findPlacementByID placementID (checkInitialization s))"
  define pw where "pw = (case found of None \<Rightarrow> None
               | Some placement \<Rightarrow> (case paywalls placement of [] \<Rightarrow> None | paywall # _ \<Rightarrow> Some paywall))"
  have sel: "selectPlacementProduct placementID bundleIndex s =
     (case pw of
           None \<Rightarrow> (NoPlacement, logError (NoPlacementOrPaywall placementID) s1)
         | Some paywall \<Rightarrow>
            (case js_index (items_v2 paywall) bundleIndex of
               None \<Rightarrow> (NoBundle, logError (NoBundleAtIndex bundleIndex) s1)
             | Some selectedBundle \<Rightarrow>
                (let (success, s2) =
                       updateProductsAndProviders selectedBundle (user_payment_providers s1) s1
                 in if \<not> success then (NoProviders, logError ProviderSetupFailed s2)
                    else
                      (let s3 = setCurrentItems placementID bundleIndex s2;
                           s4 = setCookie SelectedBundleIndex
                                  (placementID @ '','' @ number_to_string bundleIndex) s3;
                           (product, s5) = currentProduct s4
                       in (Selected, emit_product_changed product s5)))))"
    unfolding selectPlacementProduct_def found_def s1_def pw_def Let_def case_prod_beta
    by (rule refl)
  have fr: "priv_currentPlacement s1 = priv_currentPlacement s"
      "priv_currentPaywall s1 = priv_currentPaywall s"
      "priv_currentBundle s1 = priv_currentBundle s"
      "cookies s1 = cookies s"
      "priv_currentProducts s1 = priv_currentProducts s"
      "currentPaymentProviders s1 = currentPaymentProviders s"
    by (simp_all add: s1_def)
  show ?thesis
  proof (cases pw)
    case None
    with assms sel have "r = NoPlacement" "s' = logError (NoPlacementOrPaywall placementID) s1"
      by simp_all
    then show ?thesis by (simp add: fr)
  next
    case (Some paywall)
    note pw = this
    show ?thesis
    proof (cases "js_index (items_v2 paywall) bundleIndex")
      case None
      with pw assms sel have "r = NoBundle" "s' = logError (NoBundleAtIndex bundleIndex) s1"
        by simp_all
      then show ?thesis by (simp add: fr)
    next
      case (Some selectedBundle)
      let ?u = "updateProductsAndProviders selectedBundle (user_payment_providers s1) s1"
      from assms sel pw Some
      have r: "r = NoProviders" and s': "s' = logError ProviderSetupFailed (snd ?u)"
        and ns: "\<not> fst ?u"
        by (auto simp: Let_def case_prod_beta split: if_splits)
      from updateProductsAndProviders_failure [OF ns]
      show ?thesis by (simp add: r s' fr)
    qed
  qed
qed


theorem failed_selection_state_witness:
  "fst (selectPlacementProduct ''main'' (Num 1) selected_sdk) \<noteq> Selected \<and>
   priv_currentBundle (snd (selectPlacementProduct ''main'' (Num 1) selected_sdk)) =
     priv_currentBundle selected_sdk \<and>
   cookies (snd (selectPlacementProduct ''main'' (Num 1) selected_sdk)) = cookies selected_sdk \<and>
   fst (selectPlacementProduct ''other'' (Num 0) selected_sdk) \<noteq> Selected \<and>
   priv_currentProducts (snd (selectPlacementProduct ''other'' (Num 0) selected_sdk)) =
     priv_currentProducts selected_sdk"
proof -
  let ?a = "selectPlacementProduct ''main'' (Num 1) selected_sdk"
  let ?b = "selectPlacementProduct ''other'' (Num 0) selected_sdk"
  have a: "fst ?a = NoProviders" by code_simp
  have b: "fst ?b = NoPlacement" by code_simp
  have "?a = (fst ?a, snd ?a)" and "?b = (fst ?b, snd ?b)" by simp_all
  from failed_selection_state [OF this(1)] failed_selection_state [OF this(2)] a b
  show ?thesis by simp
qed

section \<open>The persisted selection\<close>

text \<open>
  C3, as stated, fails: the placement identifier \<open>'' promo''\<close> has no comma, its
  selection succeeds and is persisted, and the pair read back has the identifier
  \<open>''promo''\<close>, without the leading space, because each part of the cookie is trimmed.
\<close>

theorem selection_round_trip_counterexample:
  "fst (selectPlacementProduct '' promo'' (Num 0) demo_sdk) = Selected \<and>
   CHR '','' \<notin> set '' promo'' \<and>
   cookies (snd (selectPlacementProduct '' promo'' (Num 0) demo_sdk)) SelectedBundleIndex =
     Some '' promo,0'' \<and>
   getSavedPlacementBundleIndex (snd (selectPlacementProduct '' promo'' (Num 0) demo_sdk)) =
     (Some ''promo'', Num 0)"
  by code_simp

text \<open>
  C3, amended. For every placement identifier without a comma and without white space
  at either end, and every bundle index, when \<open>selectPlacementProduct\<close> succeeds the pair
  it persisted is read back by \<open>getSavedPlacementBundleIndex\<close> as the same placement
  identifier and the same bundle index.
\<close>

theorem selection_round_trip:
  assumes "selectPlacementProduct placementID bundleIndex s = (Selected, s')"
    and "CHR '','' \<notin> set placementID" and "trim placementID = placementID"
  shows "getSavedPlacementBundleIndex s' = (Some placementID, bundleIndex)"
proof -
  define s1 where "s1 = snd (findPlacementByID placementID (checkInitialization s))"
  define pw where "pw = (case fst (findPlacementByID placementID (checkInitialization s)) of
                 None \<Rightarrow> None
               | Some placement \<Rightarrow> (case paywalls placement of [] \<Rightarrow> None | paywall # _ \<Rightarrow> Some paywall))"
  have sel: "selectPlacementProduct placementID bundleIndex s =
     (case pw of
           None \<Rightarrow> (NoPlacement, logError (NoPlacementOrPaywall placementID) s1)
         | Some paywall \<Rightarrow>
            (case js_index (items_v2 paywall) bundleIndex of
               None \<Rightarrow> (NoBundle, logError (NoBundleAtIndex bundleIndex) s1)
             | Some selectedBundle \<Rightarrow>
                (let (success, s2) =
                       updateProductsAndProviders selectedBundle (user_payment_providers s1) s1
                 in if \<not> success then (NoProviders, logError ProviderSetupFailed s2)
                    else
                      (let s3 = setCurrentItems placementID bundleIndex s2;
                           s4 = setCookie SelectedBundleIndex
                                  (placementID @ '','' @ number_to_string bundleIndex) s3;
                           (product, s5) = currentProduct s4
                       in (Selected, emit_product_changed product s5)))))"
    unfolding selectPlacementProduct_def s1_def pw_def Let_def case_prod_beta
    by (rule refl)
  from assms(1) sel obtain paywall selectedBundle where
    pw: "pw = Some paywall" and ix: "js_index (items_v2 paywall) bundleIndex = Some selectedBundle"
    by (auto split: option.splits)
  from ix obtain i where i: "bundleIndex = Num i" "0 \<le> i"
    by (cases bundleIndex) (auto split: if_splits)
  from assms(1) sel pw ix
  have "cookies s' SelectedBundleIndex = Some (placementID @ '','' @ number_to_string bundleIndex)"
    by (auto simp: Let_def case_prod_beta setCookie_def split: if_splits)
  then have c: "getCookie SelectedBundleIndex s' = Some (placementID @ CHR '','' # digits (nat i))"
    using i by (simp add: getCookie_def)
  have sp: "split CHR '','' (placementID @ CHR '','' # digits (nat i)) = [placementID, digits (nat i)]"
    using assms(2) by (simp add: split_append_sep split_no_sep comma_not_digit)
  show ?thesis
    using i by (simp add: getSavedPlacementBundleIndex_def c sp Let_def assms(3) trim_digits parseInt_digits)
qed


theorem selection_round_trip_witness:
  "fst (selectPlacementProduct ''main'' (Num 0) demo_sdk) = Selected \<and>
   CHR '','' \<notin> set ''main'' \<and> trim ''main'' = ''main'' \<and>
   getSavedPlacementBundleIndex (snd (selectPlacementProduct ''main'' (Num 0) demo_sdk)) =
     (Some ''main'', Num 0)"
proof -
  let ?a = "selectPlacementProduct ''main'' (Num 0) demo_sdk"
  have a: "fst ?a = Selected" by code_simp
  then have h: "?a = (Selected, snd ?a)" by (metis prod.collapse)
  have c: "CHR '','' \<notin> set ''main''" by simp
  have t: "trim ''main'' = ''main''" by code_simp
  from selection_round_trip [OF h c t] a c t show ?thesis by simp
qed

section \<open>Sample values\<close>

text \<open>
  Values for the examples below: a page with the elements the Stripe form looks for
  (what it does with odd selectors is its argument), form options with nothing set, a
  back end that answers every call, a Paddle provider, and a bundle without a property
  map. On \<open>strict_page\<close> every selector that is no plain identifier throws.
\<close>

definition demo_page :: "(string \<Rightarrow> js_error + string option) \<Rightarrow> page" where
  "demo_page q =
     \<lparr>elements = [''apphud-stripe-payment-form'', ''stripe-payment-element'', ''stripe-submit'',
                  ''stripe-error-message'', ''apphud-apple-pay-button''],
      odd_selector = q,
      listeners = [], forms = [], handlers = [], next_ref = 0, effects = []\<rparr>"

definition strict_page :: page where
  "strict_page = demo_page (\<lambda>i. Inl (Failure ''SyntaxError''))"

definition demo_options :: PaymentProviderFormOptions where
  "demo_options =
     \<lparr>paymentProvider = None, successUrl = None, onSuccess = False, opt_id = None,
      buttonStateSetter = False, applePay = False, applePayConfig = None\<rparr>"

definition demo_backend :: backend where
  "demo_backend =
     \<lparr>stripe_loaded = True,
      createCustomer_response = Resolved (Some \<lparr>cs_id = ''cus_1'', cs_client_secret = ''seti_1''\<rparr>),
      createSubscription_response =
        Resolved (Some \<lparr>sub_id = ''sub_1'', client_secret = None, deep_link = None,
                         sub_customer_id = Some ''ctm_1''\<rparr>),
      paddle_loaded = True, paddle_reloaded = True, checkout_open_error = None\<rparr>"

definition paddle_provider :: PaymentProvider where
  "paddle_provider = \<lparr>pp_id = ''pp2'', pp_identifier = ''seller_1'', pp_kind = ''paddle'',
                       pp_token = Some ''live_1''\<rparr>"

definition bare_bundle :: ProductBundle where
  "bare_bundle = \<lparr>pb_id = ''b2'', pb_name = ''Yearly'', products = [stripe_product],
                   properties = None\<rparr>"

section \<open>Listeners across two shows\<close>

text \<open>
  C1 does not hold of the code. \<open>show\<close> of the builder is called twice with the same
  arguments for the default Stripe form, the second call while the first still waits for
  its customer call, as two calls of \<open>paymentForm\<close> in a row do. When the second call
  cleans up the form stored under the key, that form has no listener yet; nothing sets
  its \<open>isActive\<close> flag to false (\<open>cancel\<close> has no caller); so when the two customer calls
  have settled both forms have registered their submit handler, and one click on the
  button submits twice. This holds whatever the utilities and the page's odd selectors.
\<close>

theorem overlapping_shows_two_listeners:
  "(let (p1, b1, pg1) = FormBuilder_show_begin ''price_1'' (Some ''pw1'') (Some ''p1'') demo_options
                          (Some monthly_bundle) demo_backend
                          (new_FormBuilder stripe_provider demo_user, demo_page q);
        (p2, b2, pg2) = FormBuilder_show_begin ''price_1'' (Some ''pw1'') (Some ''p1'') demo_options
                          (Some monthly_bundle) demo_backend (b1, pg1);
        (r1, pg3) = FormBuilder_show_resume utl demo_options demo_backend 0 pg2;
        (r2, pg4) = FormBuilder_show_resume utl demo_options demo_backend 1 pg3
    in (p1, p2, r1, r2, currentForms b2, submit_listeners pg4)) =
   (Awaiting 0, Awaiting 1, None, None, [(''stripe:default'', 1)],
    [(''apphud-stripe-payment-form'', ''submit'', 2), (''apphud-stripe-payment-form'', ''submit'', 3)])"
  by code_simp

text \<open>
  For comparison: when the second call starts after the first has run to its end, on a
  new builder and a page without listeners, the listener of the first form is removed
  and one submit listener is left.
\<close>

lemma consecutive_shows_one_listener:
  "submit_listeners
     (snd (snd (FormBuilder_show utl ''price_1'' (Some ''pw1'') (Some ''p1'') demo_options
        (Some monthly_bundle) demo_backend
        (snd (FormBuilder_show utl ''price_1'' (Some ''pw1'') (Some ''p1'') demo_options
                (Some monthly_bundle) demo_backend
                (new_FormBuilder stripe_provider demo_user, demo_page q)))))) =
   [(''apphud-stripe-payment-form'', ''submit'', 3)]"
  by code_simp

section \<open>Confirmation before success\<close>

text \<open>
  The effects of success handling: the cookies, the purchase tracking, the redirect
  timer and the \<open>payment_success\<close> event. \<open>new_effects\<close> are the effects a run added to
  a page; \<open>handler_effects\<close> and \<open>handler_thrown\<close> are those of a run of the submit
  handler and what that run has thrown.
\<close>

fun is_success_effect :: "effect \<Rightarrow> bool" where
  "is_success_effect (SetCookie k v) = True"
| "is_success_effect TrackFacebookPurchase = True"
| "is_success_effect (SetTimeout r) = True"
| "is_success_effect (Emit name p) = (name = ''payment_success'')"
| "is_success_effect e = False"

definition new_effects :: "page \<Rightarrow> page \<Rightarrow> effect list" where
  "new_effects pg pg' = drop (length (effects pg)) (effects pg')"

definition handler_effects ::
  "PaymentProviderFormOptions \<Rightarrow> submit_answers \<Rightarrow> StripeForm \<Rightarrow> page \<Rightarrow> effect list" where
  "handler_effects options a form pg =
     new_effects pg (snd (snd (submitHandler_body options a (form, pg))))"

definition handler_thrown ::
  "PaymentProviderFormOptions \<Rightarrow> submit_answers \<Rightarrow> StripeForm \<Rightarrow> page \<Rightarrow> js_error option" where
  "handler_thrown options a form pg = fst (submitHandler_body options a (form, pg))"

lemma setButtonState_effects:
  "\<exists>e. setButtonState st (form, pg) = (form, effect e pg) \<and> \<not> is_success_effect e \<and>
       (\<forall>c. e \<noteq> ConfirmCardPayment c)"
  by (auto simp: setButtonState_def)

lemma querySelector_id_effects [simp]:
  "querySelector_id i (pg\<lparr>effects := es\<rparr>) = querySelector_id i pg"
  by (simp add: querySelector_id_def getElementById_def)

lemma displayError_thrown:
  "querySelector_id (ids_error (elementIDs form)) pg = Inl e \<Longrightarrow>
   displayError m (form, pg) = (Some e, form, pg)"
  by (simp add: displayError_def)

lemma displayError_returned:
  "querySelector_id (ids_error (elementIDs form)) pg = Inr found \<Longrightarrow>
   \<exists>xs. displayError m (form, pg) = (None, form, pg\<lparr>effects := effects pg @ xs\<rparr>) \<and>
        (\<forall>e\<in>set xs. \<not> is_success_effect e \<and> (\<forall>c. e \<noteq> ConfirmCardPayment c))"
proof (cases found)
  case None
  assume "querySelector_id (ids_error (elementIDs form)) pg = Inr found"
  with None have "displayError m (form, pg) = (None, form, pg\<lparr>effects := effects pg @ []\<rparr>)"
    by (simp add: displayError_def)
  then show ?thesis by (intro exI [of _ "[]"]) simp
next
  case (Some el)
  assume "querySelector_id (ids_error (elementIDs form)) pg = Inr found"
  with Some have "displayError m (form, pg) =
      (None, form, pg\<lparr>effects := effects pg @ [DisplayError m]\<rparr>)"
    by (simp add: displayError_def effect_def)
  then show ?thesis by (intro exI [of _ "[DisplayError m]"]) simp
qed

text \<open>
  C5. In a run of the submit handler that reaches the subscription call (Stripe and its
  elements are initialised, the setup is confirmed, the customer exists), when the call
  returns a subscription carrying a non-empty \<open>client_secret\<close>, \<open>confirmCardPayment\<close> is
  called with it and nothing of the success handling (cookies, purchase tracking,
  redirect timer, a \<open>payment_success\<close> event) happens before that call. When the
  confirmation succeeds the handler throws nothing and the success handling follows (the
  provider cookie, the redirect timer). When it fails, nothing of the success handling
  happens at all, in particular no redirect, and \<open>payment_failure\<close> is emitted with the
  confirmation error once the message is displayed; the one way past that is the lookup
  of the error slot throwing, which ends the handler with that exception.
\<close>

theorem confirmation_before_success:
  assumes "stripe form" and "stripe_elements form"
    and "confirmSetup_result a = Inr pm" and "customer form = Some c"
    and "subscription_response a = Resolved (Some sub)"
    and "client_secret sub = Some cs" and "cs \<noteq> []"
  shows "ConfirmCardPayment cs \<in> set (handler_effects options a form pg) \<and>
         (\<forall>e \<in> set (takeWhile (\<lambda>e. e \<noteq> ConfirmCardPayment cs) (handler_effects options a form pg)).
            \<not> is_success_effect e) \<and>
         (case confirmCardPayment_error a of
            None \<Rightarrow>
              handler_thrown options a form pg = None \<and>
              SetCookie PaymentProviderKey ''stripe'' \<in> set (handler_effects options a form pg) \<and>
              (\<exists>r. SetTimeout r \<in> set (handler_effects options a form pg))
          | Some confirmError \<Rightarrow>
              (\<forall>e \<in> set (handler_effects options a form pg). \<not> is_success_effect e) \<and>
              (case querySelector_id (ids_error (elementIDs form)) pg of
                 Inl thrown \<Rightarrow> handler_thrown options a form pg = Some thrown
               | Inr found \<Rightarrow>
                   handler_thrown options a form pg = None \<and>
                   Emit ''payment_failure'' (Failed confirmError)
                     \<in> set (handler_effects options a form pg)))"
proof -
  obtain e1 where e1: "setButtonState Processing (form, effect PreventDefault pg) =
      (form, effect e1 (effect PreventDefault pg))" "\<not> is_success_effect e1" "\<forall>c. e1 \<noteq> ConfirmCardPayment c"
    using setButtonState_effects by blast
  let ?form3 = "form\<lparr>subscription := Some sub\<rparr>"
  let ?pre = "[PreventDefault, e1, ConfirmSetup, CreateSubscription (currentProductId form) (Some pm)]"
  let ?pg4 = "pg\<lparr>effects := effects pg @ ?pre @ [ConfirmCardPayment cs]\<rparr>"
  note defs = submitHandler_body_def Let_def createSubscription_def confirm_and_settle_def
        truthy_def effect_def
  show ?thesis
  proof (cases "confirmCardPayment_error a")
    case None
    have body: "submitHandler_body options a (form, pg) =
        (None, handleSuccessfulPayment options (?form3, ?pg4))"
      using assms e1(1) None by (simp add: defs)
    show ?thesis
      using None e1(2,3)
      by (auto simp: handler_effects_def handler_thrown_def body handleSuccessfulPayment_def
          Let_def new_effects_def effect_def)
  next
    case (Some confirmError)
    let ?pg5 = "effect (LogError ''Failed to confirm card payment'') ?pg4"
    obtain e2 where e2: "setButtonState ErrorState (?form3, ?pg5) = (?form3, effect e2 ?pg5)"
      "\<not> is_success_effect e2" "\<forall>c. e2 \<noteq> ConfirmCardPayment c"
      using setButtonState_effects by blast
    let ?pg6 = "effect e2 ?pg5"
    have body: "submitHandler_body options a (form, pg) =
        and_then (displayError ''Failed to confirm payment. Please try again.'' (?form3, ?pg6))
          (\<lambda>fp2. (None, emit_payment_failure confirmError fp2))"
      using assms e1(1) Some e2(1) by (simp add: defs)
    have q: "querySelector_id (ids_error (elementIDs ?form3)) ?pg6 =
             querySelector_id (ids_error (elementIDs form)) pg"
      by (simp add: effect_def)
    show ?thesis
    proof (cases "querySelector_id (ids_error (elementIDs form)) pg")
      case (Inl thrown)
      have "displayError ''Failed to confirm payment. Please try again.'' (?form3, ?pg6) =
            (Some thrown, ?form3, ?pg6)"
        by (rule displayError_thrown) (simp add: Inl effect_def)
      then have fin: "submitHandler_body options a (form, pg) = (Some thrown, ?form3, ?pg6)"
        by (simp add: body and_then_def)
      have eff: "handler_effects options a form pg =
          ?pre @ [ConfirmCardPayment cs, LogError ''Failed to confirm card payment'', e2]"
        by (simp add: handler_effects_def fin new_effects_def effect_def)
      show ?thesis
        using Some Inl e1(2,3) e2(2,3)
        by (auto simp: eff handler_thrown_def fin)
    next
      case (Inr found)
      obtain xs where xs: "displayError ''Failed to confirm payment. Please try again.'' (?form3, ?pg6)
         = (None, ?form3, ?pg6\<lparr>effects := effects ?pg6 @ xs\<rparr>)"
         "\<forall>e\<in>set xs. \<not> is_success_effect e \<and> (\<forall>c. e \<noteq> ConfirmCardPayment c)"
        using displayError_returned [of ?form3 ?pg6 found] q Inr by auto
      have fin: "submitHandler_body options a (form, pg) =
          (None, ?form3, pg\<lparr>effects := effects pg @ ?pre @
               [ConfirmCardPayment cs, LogError ''Failed to confirm card payment'', e2] @ xs @
               [Emit ''payment_failure'' (Failed confirmError)]\<rparr>)"
        unfolding body xs(1) by (simp add: and_then_def emit_payment_failure_def effect_def)
      have eff: "handler_effects options a form pg =
          ?pre @ [ConfirmCardPayment cs, LogError ''Failed to confirm card payment'', e2] @ xs @
               [Emit ''payment_failure'' (Failed confirmError)]"
        by (simp add: handler_effects_def fin new_effects_def)
      show ?thesis
        using Some Inr e1(2,3) e2(2,3) xs(2)
        by (auto simp: eff handler_thrown_def fin)
    qed
  qed
qed

text \<open>
  A form ready for a submit, and the answers of a submit whose subscription needs a
  confirmation that then fails.
\<close>

definition ready_form :: StripeForm where
  "ready_form =
     (fst (new_StripeForm demo_user stripe_provider demo_backend strict_page))
       \<lparr>stripe_elements := True,
        customer := Some \<lparr>cs_id = ''cus_1'', cs_client_secret = ''seti_1''\<rparr>,
        submit := Some ''stripe-submit'', elementIDs := ELEMENT_IDS_new,
        currentProductId := Some ''price_1''\<rparr>"

definition declined_answers :: submit_answers where
  "declined_answers =
     \<lparr>confirmSetup_result = Inr ''pm_1'',
      subscription_response =
        Resolved (Some \<lparr>sub_id = ''sub_1'', client_secret = Some ''cs_x'',
                         deep_link = Some ''app://open'', sub_customer_id = None\<rparr>),
      confirmCardPayment_error = Some (Failure ''card_declined'')\<rparr>"

theorem confirmation_before_success_witness:
  "stripe ready_form \<and> stripe_elements ready_form \<and>
   confirmSetup_result declined_answers = Inr ''pm_1'' \<and>
   querySelector_id (ids_error (elementIDs ready_form)) strict_page = Inr (Some ''stripe-error-message'') \<and>
   handler_effects demo_options declined_answers ready_form strict_page =
     [PreventDefault, ButtonDom Processing, ConfirmSetup,
      CreateSubscription (Some ''price_1'') (Some ''pm_1''), ConfirmCardPayment ''cs_x'',
      LogError ''Failed to confirm card payment'', ButtonDom ErrorState,
      DisplayError ''Failed to confirm payment. Please try again.'',
      Emit ''payment_failure'' (Failed (Failure ''card_declined''))] \<and>
   handler_thrown demo_options declined_answers ready_form strict_page = None \<and>
   Emit ''payment_failure'' (Failed (Failure ''card_declined''))
     \<in> set (handler_effects demo_options declined_answers ready_form strict_page)"
proof -
  have h: "stripe ready_form" "stripe_elements ready_form"
    "confirmSetup_result declined_answers = Inr ''pm_1''"
    "customer ready_form = Some \<lparr>cs_id = ''cus_1'', cs_client_secret = ''seti_1''\<rparr>"
    "subscription_response declined_answers =
       Resolved (Some \<lparr>sub_id = ''sub_1'', client_secret = Some ''cs_x'',
                        deep_link = Some ''app://open'', sub_customer_id = None\<rparr>)"
    "client_secret \<lparr>sub_id = ''sub_1'', client_secret = Some ''cs_x'',
                    deep_link = Some ''app://open'', sub_customer_id = None\<rparr> = Some ''cs_x''"
    "''cs_x'' \<noteq> []"
    by (simp_all add: ready_form_def declined_answers_def new_StripeForm_def demo_backend_def
        stripe_provider_def truthy_def Let_def)
  have e: "confirmCardPayment_error declined_answers = Some (Failure ''card_declined'')"
    by (simp add: declined_answers_def)
  have q: "querySelector_id (ids_error (elementIDs ready_form)) strict_page =
           Inr (Some ''stripe-error-message'')"
    by code_simp
  have v: "handler_effects demo_options declined_answers ready_form strict_page =
     [PreventDefault, ButtonDom Processing, ConfirmSetup,
      CreateSubscription (Some ''price_1'') (Some ''pm_1''), ConfirmCardPayment ''cs_x'',
      LogError ''Failed to confirm card payment'', ButtonDom ErrorState,
      DisplayError ''Failed to confirm payment. Please try again.'',
      Emit ''payment_failure'' (Failed (Failure ''card_declined''))]"
    by code_simp
  from confirmation_before_success [OF h, of demo_options strict_page] h(1,2,3) v q
  show ?thesis by (simp add: e)
qed

section \<open>The price of the Apple Pay request\<close>

text \<open>The Stripe form behind a reference, if there is one.\<close>

definition stripe_form_at :: "nat \<Rightarrow> page \<Rightarrow> StripeForm option" where
  "stripe_form_at r pg = (case map_of (forms pg) r of Some (StripeF f) \<Rightarrow> Some f | _ \<Rightarrow> None)"

text \<open>
  With a property map that has no value for the price macro and no static price, the
  method logs the error and returns: no payment request is made.
\<close>

lemma initializeApplePay_fails_closed:
  assumes "stripe form" and "productBundle form = Some bd" and "properties bd = Some props"
    and "case applePayConfig options of None \<Rightarrow> True | Some c \<Rightarrow> staticPrice c = None"
    and "\<And>m. getValueByPath utl props m = None"
  shows "initializeApplePay utl options (form, pg) =
           (form, effect (LogError ''No price found for macro in bundle properties'') pg)"
proof -
  have "applePay_price utl options bd = Inl ''No price found for macro in bundle properties''"
  proof (cases "applePayConfig options")
    case None
    then show ?thesis
      using assms(3,5) by (simp add: applePay_price_def truthy_def)
  next
    case (Some c)
    then have "staticPrice c = None" using assms(4) by simp
    then show ?thesis
      using Some assms(3,5) by (simp add: applePay_price_def truthy_def Let_def)
  qed
  then show ?thesis
    using assms(1,2) by (simp add: initializeApplePay_def)
qed

text \<open>
  C6 does not hold of the code. A bundle without a property map has no value for any
  price macro; shown as the Apple Pay variant with no static price, the form logs no
  error and makes a payment request with the amount 0 in \<open>usd\<close>, and when Apple Pay is
  available the button is revealed and its click listener registered. This holds whatever
  the utilities and the page's odd selectors.
\<close>

theorem applePay_request_without_price:
  "properties bare_bundle = None \<and> applePayConfig (demo_options\<lparr>applePay := True\<rparr>) = None \<and>
   (let options = demo_options\<lparr>applePay := True\<rparr>;
        pg = snd (snd (FormBuilder_show utl ''price_1'' (Some ''pw1'') (Some ''p1'') options
                         (Some bare_bundle) demo_backend
                         (new_FormBuilder stripe_provider demo_user, demo_page q)));
        pg' = canMakePayment_then 0 options True pg
    in map_option paymentRequest (stripe_form_at 0 pg) =
         Some (Some \<lparr>pr_country = ''US'', pr_currency = ''usd'', pr_label = ''Yearly'',
                      pr_amount = 0, pr_requestPayerName = False, pr_requestPayerEmail = False,
                      pr_requestPayerPhone = False\<rparr>) \<and>
       effects pg =
         [Emit ''payment_form_initialized'' (Selector ''#apphud-stripe-payment-form''),
          CreateCustomer] \<and>
       new_effects pg pg' =
         [Emit ''apple_pay_available'' (ApplePayButton (Some ''apphud-apple-pay-button'')),
          ShowElement ''apphud-apple-pay-button''] \<and>
       listeners pg' = [(''apphud-apple-pay-button'', ''click'', 1)])"
  by code_simp

section \<open>The readiness gate\<close>

text \<open>
  \<open>isReady\<close> and \<open>queue\<close> of the SDK, on their own so that \<open>ready\<close> and \<open>setReady\<close> can
  be stated for any kind of callback. A queue holds values of a type \<open>'c\<close> that stand
  for the functions pushed. Calling a callback changes the instance and may throw.
  \<open>ready\<close> is given a callback twice: as what calling it does, and as the value to keep
  in the queue. \<open>setReady\<close> is given \<open>call\<close>, which says what calling a queued value
  does.
\<close>

record 'c gate =
  isReady :: bool
  queue :: "'c list"

definition ready ::
  "(('c, 'z) gate_scheme \<Rightarrow> js_error option \<times> ('c, 'z) gate_scheme) \<Rightarrow> 'c \<Rightarrow>
   ('c, 'z) gate_scheme \<Rightarrow> js_error option \<times> ('c, 'z) gate_scheme" where
  "ready callback queued s =
     (if isReady s then callback s else (None, s\<lparr>queue := queue s @ [queued]\<rparr>))"

text \<open>
  One round of \<open>while ((callback = this.queue.shift())) callback()\<close>, and the loop. The
  loop ends when the queue is empty, or when a callback throws: nothing in \<open>setReady\<close>
  catches, so the exception leaves \<open>setReady\<close> with the rest of the queue in place and
  the flag as it was. A callback may push further callbacks, so the loop need not end,
  and the result of \<open>drain\<close> is \<open>None\<close> when it does not.
\<close>

definition shift_and_call ::
  "('c \<Rightarrow> ('c, 'z) gate_scheme \<Rightarrow> js_error option \<times> ('c, 'z) gate_scheme) \<Rightarrow>
   js_error option \<times> ('c, 'z) gate_scheme \<Rightarrow> js_error option \<times> ('c, 'z) gate_scheme" where
  "shift_and_call call r = call (hd (queue (snd r))) ((snd r)\<lparr>queue := tl (queue (snd r))\<rparr>)"

definition drain ::
  "('c \<Rightarrow> ('c, 'z) gate_scheme \<Rightarrow> js_error option \<times> ('c, 'z) gate_scheme) \<Rightarrow>
   ('c, 'z) gate_scheme \<Rightarrow> (js_error option \<times> ('c, 'z) gate_scheme) option" where
  "drain call s =
     while_option (\<lambda>r. fst r = None \<and> queue (snd r) \<noteq> []) (shift_and_call call) (None, s)"

text \<open>\<open>emit_ready\<close> is \<open>this.emit("ready", this)\<close>.\<close>

definition setReady ::
  "('c \<Rightarrow> ('c, 'z) gate_scheme \<Rightarrow> js_error option \<times> ('c, 'z) gate_scheme) \<Rightarrow>
   (('c, 'z) gate_scheme \<Rightarrow> ('c, 'z) gate_scheme) \<Rightarrow> bool \<Rightarrow>
   ('c, 'z) gate_scheme \<Rightarrow> (js_error option \<times> ('c, 'z) gate_scheme) option" where
  "setReady call emit_ready initial s =
     (case drain call s of
        None \<Rightarrow> None
      | Some (Some e, s1) \<Rightarrow> Some (Some e, s1)
      | Some (None, s1) \<Rightarrow>
          (let s2 = s1\<lparr>isReady := True\<rparr>
           in Some (None, if initial then emit_ready s2 else s2)))"

subsection \<open>Callbacks that call ready\<close>

text \<open>
  A callback as far as the gate can tell: it has an identity, when called it calls
  \<open>ready\<close> with further callbacks, in order, and then it may throw. \<open>calls\<close> records the
  callbacks called, oldest first. A callback is \<open>quiet\<close> when neither it nor a callback
  it registers throws.
\<close>

datatype probe = Probe nat "probe list" bool

record probe_sdk = "probe gate" +
  calls :: "nat list"

lemma ready_cong [fundef_cong]:
  "s = s' \<Longrightarrow> c = c' \<Longrightarrow> (isReady s' \<Longrightarrow> f s' = g s') \<Longrightarrow> ready f c s = ready g c' s'"
  by (simp add: ready_def)

lemma and_then_cong [fundef_cong]:
  "r = r' \<Longrightarrow> (\<And>s. fst r' = None \<Longrightarrow> s = snd r' \<Longrightarrow> f s = g s) \<Longrightarrow> and_then r f = and_then r' g"
  by (cases r') (auto simp add: and_then_def split: option.splits)

fun invoke :: "probe \<Rightarrow> probe_sdk \<Rightarrow> js_error option \<times> probe_sdk" where
  "invoke (Probe n cs throws) s =
     and_then
       (fold (\<lambda>c r. and_then r (ready (invoke c) c)) cs (None, s\<lparr>calls := calls s @ [n]\<rparr>))
       (\<lambda>s1. (if throws then Some (Error ''thrown by a callback'') else None, s1))"

fun probe_id :: "probe \<Rightarrow> nat" where
  "probe_id (Probe n cs throws) = n"

fun probe_ids :: "probe \<Rightarrow> nat list" where
  "probe_ids (Probe n cs throws) = n # concat (map probe_ids cs)"

fun quiet :: "probe \<Rightarrow> bool" where
  "quiet (Probe n cs throws) = (\<not> throws \<and> list_all quiet cs)"

text \<open>
  \<open>probe_weight\<close> bounds the rounds the loop still has to make; \<open>drain_inv\<close> is what
  every round keeps: nothing was thrown, the gate stays closed, the waiting callbacks are
  quiet, the callbacks called so far followed by those waiting begin with the list \<open>p\<close>,
  and called and waiting callbacks (with all that the waiting ones will register) make
  up \<open>M\<close>.
\<close>

definition probe_weight :: "js_error option \<times> probe_sdk \<Rightarrow> nat" where
  "probe_weight r = sum_list (map size (queue (snd r)))"

definition drain_inv :: "nat list \<Rightarrow> nat multiset \<Rightarrow> js_error option \<times> probe_sdk \<Rightarrow> bool" where
  "drain_inv p M r \<longleftrightarrow>
     fst r = None \<and> \<not> isReady (snd r) \<and> list_all quiet (queue (snd r)) \<and>
     prefix p (calls (snd r) @ map probe_id (queue (snd r))) \<and>
     mset (calls (snd r)) + mset (concat (map probe_ids (queue (snd r)))) = M"

subsection \<open>Opening the gate\<close>

lemma and_then_returned [simp]: "and_then (None, s) f = f s"
  by (simp add: and_then_def)

lemma and_then_thrown [simp]: "and_then (Some e, s) f = (Some e, s)"
  by (simp add: and_then_def)

lemma fold_ready_closed:
  "\<not> isReady s \<Longrightarrow>
   fold (\<lambda>c r. and_then r (ready (f c) c)) cs (None, s) = (None, s\<lparr>queue := queue s @ cs\<rparr>)"
  by (induction cs arbitrary: s) (simp_all add: ready_def)

lemma invoke_closed:
  "\<not> isReady s \<Longrightarrow>
   invoke (Probe n cs throws) s =
     (if throws then Some (Error ''thrown by a callback'') else None,
      s\<lparr>calls := calls s @ [n], queue := queue s @ cs\<rparr>)"
  by (simp add: fold_ready_closed)

lemma fold_ready_open:
  assumes "\<And>c s. c \<in> set cs \<Longrightarrow> isReady s \<Longrightarrow> f c s = (None, s\<lparr>calls := calls s @ g c\<rparr>)"
    and "isReady s"
  shows "fold (\<lambda>c r. and_then r (ready (f c) c)) cs (None, s) =
           (None, s\<lparr>calls := calls s @ concat (map g cs)\<rparr>)"
  using assms by (induction cs arbitrary: s) (simp_all add: ready_def)

lemma invoke_open:
  "isReady s \<Longrightarrow> quiet c \<Longrightarrow> invoke c s = (None, s\<lparr>calls := calls s @ probe_ids c\<rparr>)"
proof (induction c arbitrary: s)
  case (Probe n cs throws)
  have q: "\<And>c. c \<in> set cs \<Longrightarrow> quiet c"
    using Probe.prems(2) by (simp add: list_all_iff)
  have "fold (\<lambda>c r. and_then r (ready (invoke c) c)) cs (None, s\<lparr>calls := calls s @ [n]\<rparr>) =
        (None, (s\<lparr>calls := calls s @ [n]\<rparr>)
                 \<lparr>calls := calls (s\<lparr>calls := calls s @ [n]\<rparr>) @ concat (map probe_ids cs)\<rparr>)"
    by (rule fold_ready_open) (simp_all add: Probe.IH Probe.prems(1) q)
  then show ?case using Probe.prems(2) by simp
qed

lemma size_children: "sum_list (map size cs) < size (Probe n cs throws)"
  by (induction cs) simp_all

lemma drain_step:
  assumes "drain_inv p M r" and "fst r = None \<and> queue (snd r) \<noteq> []"
  shows "drain_inv p M (shift_and_call invoke r) \<and>
         probe_weight (shift_and_call invoke r) < probe_weight r"
proof -
  let ?s = "snd r"
  obtain n cs throws q where q: "queue ?s = Probe n cs throws # q"
    using assms(2) by (cases "queue ?s") (auto intro: probe.exhaust)
  have nr: "\<not> isReady ?s" using assms(1) by (simp add: drain_inv_def)
  have qu: "\<not> throws" "list_all quiet cs" "list_all quiet q"
    using assms(1) by (simp_all add: drain_inv_def q)
  have st: "shift_and_call invoke r = (None, ?s\<lparr>calls := calls ?s @ [n], queue := q @ cs\<rparr>)"
    using nr qu(1) by (simp add: shift_and_call_def q invoke_closed del: invoke.simps)
  have "prefix p ((calls ?s @ map probe_id (queue ?s)) @ map probe_id cs)"
    using assms(1) unfolding drain_inv_def by (meson prefix_order.trans prefixI)
  then have pre: "prefix p (calls (snd (shift_and_call invoke r)) @
                            map probe_id (queue (snd (shift_and_call invoke r))))"
    by (simp add: st q)
  have ms: "mset (calls (snd (shift_and_call invoke r))) +
            mset (concat (map probe_ids (queue (snd (shift_and_call invoke r))))) = M"
    using assms(1) unfolding drain_inv_def by (auto simp add: st q ac_simps)
  have "probe_weight (shift_and_call invoke r) < probe_weight r"
    using size_children [of cs n throws] by (simp add: st q probe_weight_def)
  with pre ms nr qu show ?thesis by (simp add: drain_inv_def st)
qed

lemma drain_probes:
  assumes "\<not> isReady s" and "list_all quiet (queue s)"
  shows "\<exists>s'. drain invoke s = Some (None, s') \<and> \<not> isReady s' \<and> queue s' = [] \<and>
          prefix (calls s @ map probe_id (queue s)) (calls s') \<and>
          mset (calls s') = mset (calls s) + mset (concat (map probe_ids (queue s)))"
proof -
  let ?p = "calls s @ map probe_id (queue s)"
  let ?M = "mset (calls s) + mset (concat (map probe_ids (queue s)))"
  let ?b = "\<lambda>r :: js_error option \<times> probe_sdk. fst r = None \<and> queue (snd r) \<noteq> []"
  have i0: "drain_inv ?p ?M (None, s)" using assms by (simp add: drain_inv_def)
  have "\<exists>t. while_option ?b (shift_and_call invoke) (None, s) = Some t"
    by (rule measure_while_option_Some [where f = probe_weight and P = "drain_inv ?p ?M"])
      (simp_all add: drain_step i0)
  then obtain t where t: "while_option ?b (shift_and_call invoke) (None, s) = Some t"
    by blast
  have it: "drain_inv ?p ?M t"
    by (rule while_option_rule [where P = "drain_inv ?p ?M", OF _ t i0]) (simp add: drain_step)
  have "\<not> ?b t" using while_option_stop [OF t] .
  with it have e: "fst t = None" "queue (snd t) = []" by (simp_all add: drain_inv_def)
  then have "t = (None, snd t)" by (cases t) simp
  with t it e show ?thesis
    by (intro exI [of _ "snd t"]) (auto simp add: drain_def drain_inv_def)
qed

text \<open>
  What \<open>setReady\<close> does for callbacks registered through \<open>ready\<close> on the closed gate
  with an empty queue, when none of them throws: the callbacks \<open>cs\<close> are only queued;
  \<open>setReady\<close> returns, with the gate open and the queue empty; the calls it made begin
  with \<open>cs\<close> in the order of registration; every callback registered, also those
  registered by a callback while the queue was emptied, was called exactly once; and
  from then on \<open>ready\<close> calls a callback at once and queues nothing.
\<close>

lemma setReady_runs_queue_in_order:
  assumes "\<not> isReady s" and "queue s = []" and "list_all quiet cs"
  shows "\<exists>s'. setReady invoke id initial
                (snd (fold (\<lambda>c r. and_then r (ready (invoke c) c)) cs (None, s))) = Some (None, s') \<and>
           isReady s' \<and> queue s' = [] \<and>
           prefix (calls s @ map probe_id cs) (calls s') \<and>
           mset (calls s') = mset (calls s) + mset (concat (map probe_ids cs)) \<and>
           (\<forall>c. quiet c \<longrightarrow> ready (invoke c) c s' = (None, s'\<lparr>calls := calls s' @ probe_ids c\<rparr>))"
proof -
  let ?s1 = "snd (fold (\<lambda>c r. and_then r (ready (invoke c) c)) cs (None, s))"
  have s1: "?s1 = s\<lparr>queue := cs\<rparr>"
    using assms by (simp add: fold_ready_closed)
  have "\<not> isReady ?s1" "list_all quiet (queue ?s1)" using assms by (simp_all add: s1)
  from drain_probes [OF this] obtain t where
    t: "drain invoke ?s1 = Some (None, t)" "\<not> isReady t" "queue t = []"
       "prefix (calls ?s1 @ map probe_id (queue ?s1)) (calls t)"
       "mset (calls t) = mset (calls ?s1) + mset (concat (map probe_ids (queue ?s1)))"
    by blast
  let ?s' = "t\<lparr>isReady := True\<rparr>"
  have r: "setReady invoke id initial ?s1 = Some (None, ?s')"
    by (simp add: setReady_def t(1) Let_def)
  have op: "\<forall>c. quiet c \<longrightarrow> ready (invoke c) c ?s' = (None, ?s'\<lparr>calls := calls ?s' @ probe_ids c\<rparr>)"
    by (simp add: ready_def invoke_open del: invoke.simps)
  show ?thesis
    using r t(3,4,5) op unfolding s1 by (intro exI [of _ ?s']) simp
qed

text \<open>
  A callback that throws ends \<open>setReady\<close>: the gate stays closed and the callbacks behind
  it stay in the queue. And a gate that was opened while a callback waits, which is what
  \<open>createUser\<close> does when given \<open>true\<close>, calls a later callback before the waiting one.
\<close>

lemma setReady_stops_at_throw:
  "setReady invoke id True
     \<lparr>isReady = False, queue = [Probe 1 [] True, Probe 2 [] False], calls = []\<rparr> =
   Some (Some (Error ''thrown by a callback''),
         \<lparr>isReady = False, queue = [Probe 2 [] False], calls = [1]\<rparr>)"
  by code_simp

lemma opened_gate_overtakes:
  "map_option (calls \<circ> snd)
     (setReady invoke id True
        (snd (ready (invoke (Probe 2 [] False)) (Probe 2 [] False)
           ((snd (ready (invoke (Probe 1 [] False)) (Probe 1 [] False)
                    \<lparr>isReady = False, queue = [], calls = []\<rparr>))\<lparr>isReady := True\<rparr>)))) =
   Some [2, 1]"
  by code_simp

section \<open>Events and payment forms of the instance\<close>

text \<open>
  The values of an event's property hash. \<open>ApphudHash\<close> allows any value; the model has
  strings, numbers, \<open>BigInt\<close> values and objects that contain themselves. The last two
  are the values \<open>JSON.stringify\<close> throws a \<open>TypeError\<close> on.
\<close>

datatype hash_value = Str string | Number int | BigInt int | Circular

fun stringifies :: "hash_value \<Rightarrow> bool" where
  "stringifies (Str s) = True"
| "stringifies (Number n) = True"
| "stringifies (BigInt n) = False"
| "stringifies Circular = False"

text \<open>
  An analytics event. \<open>id\<close> and the two user ids are optional fields of the object.
\<close>

record EventData =
  ev_id :: "string option"
  ev_name :: string
  ev_properties :: "(string \<times> hash_value) list"
  ev_user_properties :: "(string \<times> hash_value) list"
  ev_timestamp :: nat
  insert_id :: "string option"
  device_id :: "string option"
  ev_user_id :: "string option"

definition event_stringifies :: "EventData \<Rightarrow> bool" where
  "event_stringifies e =
     (list_all (stringifies \<circ> snd) (ev_properties e) \<and>
      list_all (stringifies \<circ> snd) (ev_user_properties e))"

text \<open>The body of a create-event request.\<close>

record Events =
  events :: "EventData list"
  es_device_id :: "string option"
  es_user_id :: "string option"

text \<open>
  The value of the field \<open>eventQueue\<close>: an array of event objects, named by their
  references, or what \<open>init\<close> may have put there from a cookie that held no array:
  \<open>null\<close>, or a value with neither \<open>length\<close> nor \<open>push\<close> (an object, a number, a
  boolean). The cookie \<open>EventsKey\<close> holds JSON text; \<open>events_json\<close> is what that text
  stands for, \<open>Unparsable\<close> when it is no JSON. A JSON string, and an array with an entry
  that is no event object, are left out.
\<close>

datatype queue_value = QArray "nat list" | QNull | QOther

datatype events_json = Unparsable | JsonNull | JsonOther | JsonArray "EventData list"

text \<open>
  The functions given to \<open>ready\<close>: the arrow functions of \<open>track\<close>, \<open>trackEvent\<close> and
  \<open>paymentForm\<close>, with the variables they close over. A timer holds the function given
  to \<open>setTimeout\<close> by \<open>track\<close>; a request is a create-event call that has not settled,
  with what its \<open>then\<close> callback closes over.
\<close>

datatype sdk_callback =
    TrackClosure nat bool
  | TrackEventClosure nat bool
  | PaymentFormClosure "PaymentProviderFormOptions option" "string option"

datatype timer = TrackEventTimer nat bool

record request =
  rq_body :: Events
  rq_event :: nat
  rq_refreshPlacements :: bool

datatype lifecycle = ProviderNotFound string "string list" | ReadyEvent

record SDKConfig =
  debug :: bool
  disableCookies :: bool
  websiteVersion :: string

text \<open>
  The instance: the gate, the state of the catalog (\<open>core\<close>), the event queue, the event
  objects by reference, the form builders by provider id, and the surroundings: the
  document, the back end's answers to the payment calls, the clock, the counter behind
  \<open>generateId\<close>, the constant \<open>canStringify\<close>, timers set, create-event requests and
  create-user requests sent, lifecycle events emitted, and the rejected promises that
  nothing handles.
\<close>

record ApphudSDK = "sdk_callback gate" +
  core :: sdk
  sdk_config :: SDKConfig
  userID :: "string option"
  eventQueue :: queue_value
  event_objects :: "(nat \<times> EventData) list"
  next_object :: nat
  events_cookie :: "events_json option"
  canStringify :: bool
  timers :: "timer list"
  requests :: "request list"
  user_requests :: "(string \<times> string) list option list"
  formBuilders :: "(string \<times> FormBuilder) list"
  doc_page :: page
  server :: backend
  emitted :: "lifecycle list"
  unhandled_rejections :: "js_error list"
  clock :: nat
  id_counter :: nat

definition log_error :: "sdk_error \<Rightarrow> ApphudSDK \<Rightarrow> ApphudSDK" where
  "log_error e s = s\<lparr>core := logError e (core s)\<rparr>"

definition check_initialization :: "ApphudSDK \<Rightarrow> ApphudSDK" where
  "check_initialization s = s\<lparr>core := checkInitialization (core s)\<rparr>"

definition emit :: "lifecycle \<Rightarrow> ApphudSDK \<Rightarrow> ApphudSDK" where
  "emit e s = s\<lparr>emitted := emitted s @ [e]\<rparr>"

definition TypeError :: js_error where
  "TypeError = Failure ''TypeError''"

text \<open>
  \<open>generateId\<close> and \<open>timestamp\<close> are not among the sources; \<open>generateId\<close> is taken to
  give a new identifier at every call, here from a counter, and \<open>timestamp\<close> to read the
  clock.
\<close>

definition generateId :: "nat \<Rightarrow> string" where
  "generateId n = ''id-'' @ digits n"

definition getUserID :: "ApphudSDK \<Rightarrow> string option \<times> ApphudSDK" where
  "getUserID s =
     (let s1 = check_initialization s
      in if truthy (userID s1) \<and> disableCookies (sdk_config s1) then (userID s1, s1)
         else
           (let cookieKey = (if debug (sdk_config s1) then DebugUserIdKey else ProductionUserIdKey);
                uid = getCookie cookieKey (core s1)
            in (if truthy uid then uid else None, s1)))"

definition queued_events :: "ApphudSDK \<Rightarrow> EventData list" where
  "queued_events s =
     (case eventQueue s of
        QArray refs \<Rightarrow> List.map_filter (map_of (event_objects s)) refs
      | _ \<Rightarrow> [])"

text \<open>
  \<open>saveEventQueue\<close>: \<open>JSON.stringify\<close> throws when an event of the queue has a property
  it cannot serialise; nothing is stored then.
\<close>

definition saveEventQueue :: "ApphudSDK \<Rightarrow> js_error option \<times> ApphudSDK" where
  "saveEventQueue s =
     (if \<not> canStringify s then (None, s)
      else
        (case eventQueue s of
           QArray refs \<Rightarrow>
             if list_all event_stringifies (queued_events s)
             then (None, s\<lparr>events_cookie := Some (JsonArray (queued_events s))\<rparr>)
             else (Some TypeError, s)
         | QNull \<Rightarrow> (None, s\<lparr>events_cookie := Some JsonNull\<rparr>)
         | QOther \<Rightarrow> (None, s\<lparr>events_cookie := Some JsonOther\<rparr>)))"

text \<open>
  \<open>eventData\<close> builds the request body around the event object and then deletes the two
  user ids from the object, so the body's event is the object without them.
\<close>

definition eventData :: "nat \<Rightarrow> ApphudSDK \<Rightarrow> Events option \<times> ApphudSDK" where
  "eventData r s =
     (case map_of (event_objects s) r of
        None \<Rightarrow> (None, s)
      | Some event \<Rightarrow>
          (let stripped = event\<lparr>device_id := None, ev_user_id := None\<rparr>
           in (Some \<lparr>events = [stripped], es_device_id = device_id event,
                      es_user_id = ev_user_id event\<rparr>,
               s\<lparr>event_objects := map_set r stripped (event_objects s)\<rparr>)))"

text \<open>
  The function \<open>trackEvent\<close> gives to \<open>ready\<close>: it sends the create-event request and
  does not wait for it. It is an \<open>async\<close> function, so calling it throws nothing.
\<close>

definition run_trackEvent_closure :: "nat \<Rightarrow> bool \<Rightarrow> ApphudSDK \<Rightarrow> js_error option \<times> ApphudSDK" where
  "run_trackEvent_closure r refreshPlacements s =
     (case eventData r s of
        (None, s1) \<Rightarrow> (None, s1)
      | (Some body, s1) \<Rightarrow>
          (None,
           s1\<lparr>requests := requests s1 @
                 [\<lparr>rq_body = body, rq_event = r, rq_refreshPlacements = refreshPlacements\<rparr>]\<rparr>))"

definition trackEvent :: "nat \<Rightarrow> bool \<Rightarrow> ApphudSDK \<Rightarrow> ApphudSDK" where
  "trackEvent r refreshPlacements s =
     snd (ready (run_trackEvent_closure r refreshPlacements)
            (TrackEventClosure r refreshPlacements) s)"

text \<open>
  The \<open>then\<close> callback of the create-event call of a request, up to \<open>saveEventQueue\<close>:
  the first queue entry whose \<open>id\<close> equals the \<open>id\<close> of the event sent is removed. The
  callback ends with \<open>initializeApp\<close>, which is left out: it adds to the queue at most.
  \<open>remove_first_id\<close> is the \<open>for\<close> loop with its \<open>break\<close>. Reading \<open>length\<close> of \<open>null\<close>
  throws; a value without \<open>length\<close> ends the loop at once.
\<close>

fun remove_first_id :: "(nat \<times> EventData) list \<Rightarrow> string option \<Rightarrow> nat list \<Rightarrow> nat list" where
  "remove_first_id objs i [] = []"
| "remove_first_id objs i (r # rs) =
     (if map_option ev_id (map_of objs r) = Some i then rs else r # remove_first_id objs i rs)"

definition createEvent_then :: "request \<Rightarrow> ApphudSDK \<Rightarrow> js_error option \<times> ApphudSDK" where
  "createEvent_then rq s =
     (case eventQueue s of
        QNull \<Rightarrow> (Some TypeError, s)
      | QOther \<Rightarrow> saveEventQueue s
      | QArray refs \<Rightarrow>
          (case map_of (event_objects s) (rq_event rq) of
             None \<Rightarrow> saveEventQueue s
           | Some event \<Rightarrow>
               saveEventQueue
                 (s\<lparr>eventQueue := QArray (remove_first_id (event_objects s) (ev_id event) refs)\<rparr>)))"

text \<open>
  The create-event call of the request at a position settles. Fulfilled, its \<open>then\<close>
  callback runs; when the call is rejected or the callback throws, the promise \<open>then\<close>
  returned is rejected, and nothing handles it.
\<close>

definition createEvent_settles :: "js_error option \<Rightarrow> nat \<Rightarrow> ApphudSDK \<Rightarrow> ApphudSDK" where
  "createEvent_settles failure n s =
     (if n < length (requests s)
      then (let rq = requests s ! n;
                s1 = s\<lparr>requests := take n (requests s) @ drop (Suc n) (requests s)\<rparr>
            in case failure of
                 None \<Rightarrow>
                   (case createEvent_then rq s1 of
                      (None, s2) \<Rightarrow> s2
                    | (Some e, s2) \<Rightarrow> s2\<lparr>unhandled_rejections := unhandled_rejections s2 @ [e]\<rparr>)
               | Some e \<Rightarrow> s1\<lparr>unhandled_rejections := unhandled_rejections s1 @ [e]\<rparr>)
      else s)"

text \<open>
  The function \<open>track\<close> gives to \<open>ready\<close>. \<open>push\<close> on a queue that is no array throws.
\<close>

definition run_track_closure :: "nat \<Rightarrow> bool \<Rightarrow> ApphudSDK \<Rightarrow> js_error option \<times> ApphudSDK" where
  "run_track_closure r refreshPlacements s =
     (let (uid, s1) = getUserID s;
          (did, s2) = getUserID s1;
          s3 = (case map_of (event_objects s2) r of
                  None \<Rightarrow> s2
                | Some event \<Rightarrow>
                    s2\<lparr>event_objects :=
                         map_set r (event\<lparr>ev_user_id := uid, device_id := did\<rparr>) (event_objects s2)\<rparr>)
      in case eventQueue s3 of
           QArray refs \<Rightarrow>
             and_then (saveEventQueue (s3\<lparr>eventQueue := QArray (refs @ [r])\<rparr>))
               (\<lambda>s4. (None, s4\<lparr>timers := timers s4 @ [TrackEventTimer r refreshPlacements]\<rparr>))
         | _ \<Rightarrow> (Some TypeError, s3))"

text \<open>
  \<open>track\<close>: its result is the value returned, or the value thrown. \<open>properties || {}\<close>
  and \<open>userProperties || {}\<close>: a missing hash is the empty one.
\<close>

definition track ::
  "string \<Rightarrow> (string \<times> hash_value) list option \<Rightarrow> (string \<times> hash_value) list option \<Rightarrow> bool \<Rightarrow>
   ApphudSDK \<Rightarrow> (js_error + bool) \<times> ApphudSDK" where
  "track name props userProperties refreshPlacements s =
     (let s1 = check_initialization s;
          event = \<lparr>ev_id = None, ev_name = name,
                   ev_properties = (case props of None \<Rightarrow> [] | Some h \<Rightarrow> h),
                   ev_user_properties = (case userProperties of None \<Rightarrow> [] | Some h \<Rightarrow> h),
                   ev_timestamp = clock s1,
                   insert_id = Some (generateId (id_counter s1)),
                   device_id = None, ev_user_id = None\<rparr>;
          r = next_object s1;
          s2 = s1\<lparr>event_objects := map_set r event (event_objects s1), next_object := Suc r,
                  id_counter := Suc (id_counter s1)\<rparr>
      in case ready (run_track_closure r refreshPlacements)
                (TrackClosure r refreshPlacements) s2 of
           (None, s3) \<Rightarrow> (Inr True, s3)
         | (Some e, s3) \<Rightarrow> (Inl e, s3))"

text \<open>The timer set by \<open>track\<close> fires.\<close>

definition timer_fires :: "ApphudSDK \<Rightarrow> ApphudSDK" where
  "timer_fires s =
     (case timers s of
        [] \<Rightarrow> s
      | TrackEventTimer r refreshPlacements # rest \<Rightarrow>
          trackEvent r refreshPlacements (s\<lparr>timers := rest\<rparr>))"

text \<open>
  \<open>init\<close>, up to the user id: the placeholder keys, the queue restored from the cookie
  (every parsed entry is a new object) with \<open>trackEvent\<close> on each entry, the
  initialised flag. The \<open>try\<close> block catches what \<open>JSON.parse\<close> throws on text that is
  no JSON, before the field is assigned, and what reading \<open>length\<close> of \<open>null\<close> throws,
  after it. The options are taken to be in \<open>sdk_config\<close> already. What follows in the
  source awaits the hash of the user id and schedules \<open>initializeApp\<close>.
\<close>

definition placeholderKeys :: "string list" where
  "placeholderKeys = [''your_api_key'', ''your_api_key_here'', ''YOUR-APPHUD-FLOW-KEY'']"

definition restore_events :: "EventData list \<Rightarrow> ApphudSDK \<Rightarrow> ApphudSDK" where
  "restore_events es s =
     (let refs = [next_object s ..< next_object s + length es]
      in s\<lparr>event_objects := event_objects s @ zip refs es,
            next_object := next_object s + length es,
            eventQueue := QArray refs\<rparr>)"

definition restore_queue :: "ApphudSDK \<Rightarrow> ApphudSDK" where
  "restore_queue s =
     (case events_cookie s of
        None \<Rightarrow> s\<lparr>eventQueue := QArray []\<rparr>
      | Some Unparsable \<Rightarrow> log_error (Caught (Failure ''SyntaxError'')) s
      | Some JsonNull \<Rightarrow> log_error (Caught TypeError) (s\<lparr>eventQueue := QNull\<rparr>)
      | Some JsonOther \<Rightarrow> s\<lparr>eventQueue := QOther\<rparr>
      | Some (JsonArray es) \<Rightarrow>
          (let s1 = restore_events es s
           in fold (\<lambda>r. trackEvent r False) [next_object s ..< next_object s + length es] s1))"

definition init :: "string \<Rightarrow> ApphudSDK \<Rightarrow> ApphudSDK" where
  "init apiKey s =
     (if apiKey \<in> set placeholderKeys then log_error ApiKeyMissing s
      else
        (let s2 = restore_queue s;
             s3 = s2\<lparr>core := (core s2)\<lparr>isInitialized := True\<rparr>\<rparr>;
             cookieKey = (if debug (sdk_config s3) then DebugUserIdKey else ProductionUserIdKey);
             uid = getCookie cookieKey (core s3)
         in if truthy uid then s3\<lparr>userID := uid\<rparr>
            else
              (let fresh = generateId (id_counter s3);
                   s4 = s3\<lparr>userID := Some fresh, id_counter := Suc (id_counter s3)\<rparr>
               in if disableCookies (sdk_config s4) then s4
                  else
                    (let c1 = (if truthy (getCookie StartAppVersionKey (core s4)) then core s4
                               else setCookie StartAppVersionKey (websiteVersion (sdk_config s4))
                                      (core s4))
                     in s4\<lparr>core := setCookie cookieKey fresh c1\<rparr>))))"

subsection \<open>createUser and the gate\<close>

text \<open>
  \<open>createUser\<close> up to the call of the back end it awaits: it assigns its argument
  \<open>ready\<close> to \<open>isReady\<close>, and without a user id it logs and returns \<open>null\<close>. The result
  says whether the request was sent. \<open>setEmail\<close> and \<open>initializeApp\<close> are modelled up
  to the same point: \<open>setEmail\<close> passes \<open>true\<close>, \<open>initializeApp\<close> passes \<open>false\<close> when it
  refreshes the placements. \<open>initializeApp\<close> ends with \<open>setReady\<close>.
\<close>

definition createUser_begin ::
  "(string \<times> string) list option \<Rightarrow> bool \<Rightarrow> ApphudSDK \<Rightarrow> bool \<times> ApphudSDK" where
  "createUser_begin params rdy s =
     (let s1 = s\<lparr>isReady := rdy\<rparr>
      in if \<not> truthy (userID s1) then (False, log_error UserIDNotAvailable s1)
         else (True, s1\<lparr>user_requests := user_requests s1 @ [params]\<rparr>))"

definition setEmail_begin :: "string \<Rightarrow> ApphudSDK \<Rightarrow> ApphudSDK" where
  "setEmail_begin email s =
     snd (createUser_begin (Some [(''email'', email)]) True (check_initialization s))"

definition initializeApp_begin :: "bool \<Rightarrow> ApphudSDK \<Rightarrow> ApphudSDK" where
  "initializeApp_begin refreshPlacements s =
     (if refreshPlacements then snd (createUser_begin None False s) else s)"

subsection \<open>The payment form of the current selection\<close>

definition currentProductForProvider :: "string \<Rightarrow> sdk \<Rightarrow> Product option \<times> sdk" where
  "currentProductForProvider provider s =
     (let s1 = checkInitialization s in (map_of (priv_currentProducts s1) provider, s1))"

definition currentPlacement :: "sdk \<Rightarrow> Placement option \<times> sdk" where
  "currentPlacement s =
     (let s1 = checkInitialization s
      in case priv_currentPlacement s1 of
           Some p \<Rightarrow> (Some p, s1)
         | None \<Rightarrow> (case placements s1 of [] \<Rightarrow> (None, s1) | p # _ \<Rightarrow> (Some p, s1)))"

definition currentPaywall :: "sdk \<Rightarrow> Paywall option \<times> sdk" where
  "currentPaywall s =
     (let s1 = checkInitialization s
      in case priv_currentPaywall s1 of
           Some w \<Rightarrow> (Some w, s1)
         | None \<Rightarrow>
             (let (placement, s2) = currentPlacement s1
              in case placement of
                   None \<Rightarrow> (None, s2)
                 | Some p \<Rightarrow> (case paywalls p of [] \<Rightarrow> (None, s2) | w # _ \<Rightarrow> (Some w, s2))))"

definition no_options :: PaymentProviderFormOptions where
  "no_options =
     \<lparr>paymentProvider = None, successUrl = None, onSuccess = False, opt_id = None,
      buttonStateSetter = False, applePay = False, applePayConfig = None\<rparr>"

definition formEvents :: "string list" where
  "formEvents = [''payment_form_initialized'', ''payment_form_ready'', ''payment_failure'',
                 ''payment_success'']"

text \<open>
  The body of the \<open>forEach\<close> over \<open>formEvents\<close>, on the builder and the instance: the
  relay is registered, and at \<open>payment_form_ready\<close> the checkout event is tracked. What
  \<open>track\<close> throws ends the \<open>forEach\<close>.
\<close>

definition register_formEvent ::
  "string \<Rightarrow> FormBuilder \<times> ApphudSDK \<Rightarrow> js_error option \<times> FormBuilder \<times> ApphudSDK" where
  "register_formEvent formEvent bs =
     (let b = on formEvent (fst bs); s = snd bs
      in if formEvent = ''payment_form_ready''
         then (case (priv_currentPaywall (core s), priv_currentPlacement (core s)) of
                 (Some w, Some p) \<Rightarrow>
                   (case track ''paywall_checkout_initiated''
                           (Some [(''paywall_id'', Str (pw_id w)), (''placement_id'', Str (pl_id p))])
                           (Some []) False s of
                      (Inr returned, s1) \<Rightarrow> (None, b, s1)
                    | (Inl e, s1) \<Rightarrow> (Some e, b, s1))
               | _ \<Rightarrow> (None, b, log_error CheckoutNotTracked s))
         else (None, b, s))"

definition register_formEvents ::
  "FormBuilder \<times> ApphudSDK \<Rightarrow> js_error option \<times> FormBuilder \<times> ApphudSDK" where
  "register_formEvents bs =
     fold (\<lambda>formEvent r. and_then r (register_formEvent formEvent)) formEvents (None, bs)"

text \<open>
  The function \<open>paymentForm\<close> gives to \<open>ready\<close>, from the point where the provider is
  known. It is an \<open>async\<close> function: the result says whether its promise is rejected, and
  with what. \<open>show\<close> of the builder is run to its end.
\<close>

definition show_for_provider ::
  "utils \<Rightarrow> PaymentProvider \<Rightarrow> PaymentProviderFormOptions \<Rightarrow> string option \<Rightarrow> ApphudSDK \<Rightarrow>
   js_error option \<times> ApphudSDK" where
  "show_for_provider utl targetProvider formOptions product s =
     (let (targetProduct, c1) = currentProductForProvider (pp_kind targetProvider) (core s);
          s1 = s\<lparr>core := c1\<rparr>
      in case targetProduct of
           None \<Rightarrow> (None, log_error ProductRequired s1)
         | Some tp \<Rightarrow>
             (let (paywall, c2) = currentPaywall (core s1); s2 = s1\<lparr>core := c2\<rparr>
              in case paywall of
                   None \<Rightarrow> (None, log_error PaywallRequired s2)
                 | Some w0 \<Rightarrow>
                     (let (placement, c3) = currentPlacement (core s2); s3 = s2\<lparr>core := c3\<rparr>
                      in case placement of
                           None \<Rightarrow> (None, log_error PlacementRequired s3)
                         | Some p0 \<Rightarrow>
                             (let productId = (if truthy product then the product else base_plan_id tp)
                              in if productId = [] then (None, log_error ProductAbsent s3)
                                 else
                                   (case user (core s3) of
                                      None \<Rightarrow> (None, log_error NoUser s3)
                                    | Some u \<Rightarrow>
                                        (let builder =
                                               (case map_of (formBuilders s3) (pp_id targetProvider) of
                                                  Some b \<Rightarrow> b
                                                | None \<Rightarrow> new_FormBuilder targetProvider u);
                                             (thrown, builder1, s4) = register_formEvents (builder, s3)
                                         in case thrown of
                                              Some e \<Rightarrow>
                                                (Some e,
                                                 s4\<lparr>formBuilders :=
                                                       map_set (pp_id targetProvider) builder1
                                                         (formBuilders s4)\<rparr>)
                                            | None \<Rightarrow>
                                                (let (w, c5) = currentPaywall (core s4);
                                                     (p, c6) = currentPlacement c5;
                                                     s6 = s4\<lparr>core := c6\<rparr>;
                                                     (rejected, builder2, pg) =
                                                       FormBuilder_show utl productId
                                                         (map_option pw_id w) (map_option pl_id p)
                                                         formOptions (priv_currentBundle (core s6))
                                                         (server s6) (builder1, doc_page s6)
                                                 in (rejected,
                                                     s6\<lparr>formBuilders :=
                                                           map_set (pp_id targetProvider) builder2
                                                             (formBuilders s6),
                                                         doc_page := pg\<rparr>))))))))"

definition paymentForm_body ::
  "utils \<Rightarrow> PaymentProviderFormOptions option \<Rightarrow> string option \<Rightarrow> ApphudSDK \<Rightarrow>
   js_error option \<times> ApphudSDK" where
  "paymentForm_body utl options product s =
     (let formOptions = (case options of None \<Rightarrow> no_options | Some opts \<Rightarrow> opts);
          providers = currentPaymentProviders (core s)
      in if truthy (paymentProvider formOptions)
         then (case map_of providers (the (paymentProvider formOptions)) of
                 None \<Rightarrow>
                   (None, emit (ProviderNotFound (the (paymentProvider formOptions)) (map fst providers))
                            (log_error (ProviderNotAvailable (the (paymentProvider formOptions))) s))
               | Some targetProvider \<Rightarrow> show_for_provider utl targetProvider formOptions product s)
         else (case providers of
                 [] \<Rightarrow> (None, log_error NoProviderAvailable s)
               | kv # _ \<Rightarrow> show_for_provider utl (snd kv) formOptions product s))"

text \<open>
  \<open>ready\<close> and \<open>setReady\<close> call a callback and drop what it returns. When that is a
  rejected promise, nothing handles the rejection; the call itself throws nothing.
\<close>

definition run_paymentForm_closure ::
  "utils \<Rightarrow> PaymentProviderFormOptions option \<Rightarrow> string option \<Rightarrow> ApphudSDK \<Rightarrow>
   js_error option \<times> ApphudSDK" where
  "run_paymentForm_closure utl options product s =
     (case paymentForm_body utl options product s of
        (None, s1) \<Rightarrow> (None, s1)
      | (Some e, s1) \<Rightarrow> (None, s1\<lparr>unhandled_rejections := unhandled_rejections s1 @ [e]\<rparr>))"

definition paymentForm ::
  "utils \<Rightarrow> PaymentProviderFormOptions option \<Rightarrow> string option \<Rightarrow> ApphudSDK \<Rightarrow> ApphudSDK" where
  "paymentForm utl options product s =
     snd (ready (run_paymentForm_closure utl options product) (PaymentFormClosure options product)
            (check_initialization s))"

text \<open>What calling a queued function does, and \<open>setReady\<close> of the instance.\<close>

definition call :: "utils \<Rightarrow> sdk_callback \<Rightarrow> ApphudSDK \<Rightarrow> js_error option \<times> ApphudSDK" where
  "call utl cb s =
     (case cb of
        TrackClosure r refreshPlacements \<Rightarrow> run_track_closure r refreshPlacements s
      | TrackEventClosure r refreshPlacements \<Rightarrow> run_trackEvent_closure r refreshPlacements s
      | PaymentFormClosure options product \<Rightarrow> run_paymentForm_closure utl options product s)"

definition sdk_setReady :: "utils \<Rightarrow> bool \<Rightarrow> ApphudSDK \<Rightarrow> (js_error option \<times> ApphudSDK) option" where
  "sdk_setReady utl initial s = setReady (call utl) (emit ReadyEvent) initial s"

subsection \<open>A sample instance\<close>

definition new_ApphudSDK :: "sdk \<Rightarrow> backend \<Rightarrow> page \<Rightarrow> ApphudSDK" where
  "new_ApphudSDK c bk pg =
     \<lparr>isReady = False, queue = [], core = c,
      sdk_config = \<lparr>debug = False, disableCookies = False, websiteVersion = ''1.0''\<rparr>,
      userID = None, eventQueue = QArray [], event_objects = [], next_object = 0,
      events_cookie = None, canStringify = True, timers = [], requests = [],
      user_requests = [], formBuilders = [], doc_page = pg, server = bk, emitted = [],
      unhandled_rejections = [], clock = 0, id_counter = 0\<rparr>"

text \<open>
  The sample instance after the catalog was fetched: the gate is open and the user id is
  in its cookie.
\<close>

definition open_sdk :: "sdk \<Rightarrow> backend \<Rightarrow> page \<Rightarrow> ApphudSDK" where
  "open_sdk c bk pg =
     (new_ApphudSDK (c\<lparr>cookies := (cookies c)(ProductionUserIdKey \<mapsto> ''u-1'')\<rparr>) bk pg)
       \<lparr>isReady := True\<rparr>"

text \<open>A catalog whose only provider is of a kind the form builder does not know.\<close>

definition paypal_provider :: PaymentProvider where
  "paypal_provider = \<lparr>pp_id = ''pp3'', pp_identifier = ''merchant_1'', pp_kind = ''paypal'',
                       pp_token = Some ''tok_1''\<rparr>"

definition paypal_sdk :: sdk where
  "paypal_sdk = (new_sdk Map.empty)
     \<lparr>placements :=
        [\<lparr>pl_id = ''p1'', pl_identifier = ''main'',
          paywalls =
            [\<lparr>pw_id = ''pw1'',
              items_v2 =
                [\<lparr>pb_id = ''b0'', pb_name = ''Monthly'',
                  products = [\<lparr>prod_id = ''prod3'', base_plan_id = ''plan_3'',
                               store = ''paypal''\<rparr>],
                  properties = None\<rparr>]\<rparr>]\<rparr>],
      user := Some (demo_user\<lparr>payment_providers := Some [paypal_provider]\<rparr>),
      isInitialized := True\<rparr>"

text \<open>
  Two events tracked on the open gate, \<open>A\<close> before \<open>B\<close>, and both timers fired: both are in
  the queue and in the cookie, and both create-event requests are under way.
\<close>

definition two_events :: "page \<Rightarrow> ApphudSDK" where
  "two_events pg =
     timer_fires (timer_fires (snd (track ''B'' None None False
       (snd (track ''A'' None None False (open_sdk demo_sdk demo_backend pg))))))"

text \<open>The page is loaded again: a new instance that finds the cookie of the old one.\<close>

definition reloaded :: "ApphudSDK \<Rightarrow> ApphudSDK" where
  "reloaded s =
     init ''key'' ((new_ApphudSDK demo_sdk demo_backend (doc_page s))\<lparr>events_cookie := events_cookie s\<rparr>)"

text \<open>The names of the events in the cookie, when it holds an array.\<close>

definition cookie_names :: "ApphudSDK \<Rightarrow> string list option" where
  "cookie_names s =
     (case events_cookie s of Some (JsonArray es) \<Rightarrow> Some (map ev_name es) | _ \<Rightarrow> None)"

section \<open>The result of track\<close>













section \<open>Which queue entry a delivered event removes\<close>

text \<open>
  The \<open>then\<close> callback looks for the queue entry whose \<open>id\<close> equals the \<open>id\<close> of the
  event sent. \<open>track\<close> gives an event an \<open>insert_id\<close> and no \<open>id\<close>, so the first entry of
  the queue matches, whichever event was sent.
\<close>

lemma createEvent_then_removes_head:
  assumes "map_of (event_objects s) (rq_event rq) = Some e" and "ev_id e = None"
    and "eventQueue s = QArray (r # rs)" and "map_of (event_objects s) r = Some e'"
    and "ev_id e' = None"
  shows "eventQueue (snd (createEvent_then rq s)) = QArray rs"
  using assms by (simp add: createEvent_then_def saveEventQueue_def)

text \<open>
  C7 does not hold of the code. With \<open>A\<close> and \<open>B\<close> sent, let the call for \<open>B\<close> succeed
  first: the entry removed is that of \<open>A\<close>, whose call has not succeeded, and the
  cookie holds \<open>B\<close> alone. Let the call for \<open>A\<close> fail then: queue and cookie stay so, and
  the rejection is handled by nothing. A new instance that finds this cookie sends
  \<open>B\<close>, which was delivered, again, and never sends \<open>A\<close>.
\<close>

theorem delivered_event_removes_first_entry:
  "map ev_name (queued_events (two_events (demo_page q))) = [''A'', ''B''] \<and>
   map (map ev_name \<circ> events \<circ> rq_body) (requests (two_events (demo_page q))) =
     [[''A''], [''B'']] \<and>
   cookie_names (createEvent_settles None 1 (two_events (demo_page q))) = Some [''B''] \<and>
   cookie_names (createEvent_settles (Some (Failure ''offline'')) 0
        (createEvent_settles None 1 (two_events (demo_page q)))) = Some [''B''] \<and>
   unhandled_rejections (createEvent_settles (Some (Failure ''offline'')) 0
        (createEvent_settles None 1 (two_events (demo_page q)))) = [Failure ''offline''] \<and>
   map_option (\<lambda>r. map (map ev_name \<circ> events \<circ> rq_body) (requests (snd r)))
     (sdk_setReady utl True (reloaded (createEvent_settles (Some (Failure ''offline'')) 0
        (createEvent_settles None 1 (two_events (demo_page q)))))) = Some [[''B'']]"
  by code_simp

section \<open>A rejected show\<close>

text \<open>
  C8 does not hold of the code. \<open>paymentForm\<close> on the open gate, for a selection whose
  provider is of kind \<open>paypal\<close>: \<open>show\<close> of the builder throws, the promise of the function
  given to \<open>ready\<close> is rejected and nothing handles it; no error is logged and no
  lifecycle event is emitted. The same for a Stripe selection when the create-customer
  call is rejected: the rejection of \<open>show\<close> reaches the page, after the form was
  announced and the button set to loading.
\<close>

theorem paymentForm_rejection_unhandled:
  "unhandled_rejections
     (paymentForm utl None None
        (open_sdk (snd (selectPlacementProduct ''main'' (Num 0) paypal_sdk)) demo_backend
           (demo_page q))) =
     [Error ''Unsupported type paypal''] \<and>
   errors (core (paymentForm utl None None
        (open_sdk (snd (selectPlacementProduct ''main'' (Num 0) paypal_sdk)) demo_backend
           (demo_page q)))) = [] \<and>
   emitted (paymentForm utl None None
        (open_sdk (snd (selectPlacementProduct ''main'' (Num 0) paypal_sdk)) demo_backend
           (demo_page q))) = [] \<and>
   effects (doc_page (paymentForm utl None None
        (open_sdk (snd (selectPlacementProduct ''main'' (Num 0) paypal_sdk)) demo_backend
           (demo_page q)))) = [] \<and>
   unhandled_rejections
     (paymentForm utl None None
        (open_sdk selected_sdk
           (demo_backend\<lparr>createCustomer_response := Rejected (Failure ''503'')\<rparr>)
           (demo_page q))) =
     [Failure ''503''] \<and>
   errors (core (paymentForm utl None None
        (open_sdk selected_sdk
           (demo_backend\<lparr>createCustomer_response := Rejected (Failure ''503'')\<rparr>)
           (demo_page q)))) = [] \<and>
   effects (doc_page (paymentForm utl None None
        (open_sdk selected_sdk
           (demo_backend\<lparr>createCustomer_response := Rejected (Failure ''503'')\<rparr>)
           (demo_page q)))) =
     [Emit ''payment_form_initialized'' (Selector ''#apphud-stripe-payment-form''),
      ButtonDom Loading, CreateCustomer]"
  by code_simp

section \<open>A gate opened without its queue\<close>

text \<open>
  C4 does not hold of the code. \<open>setReady\<close> is not the only writer of \<open>isReady\<close>:
  \<open>createUser\<close> assigns its argument to the flag, and \<open>setEmail\<close> passes \<open>true\<close>. After
  \<open>init\<close>, \<open>track\<close> of \<open>A\<close> is queued behind the closed gate; \<open>setEmail\<close> opens the gate
  and calls nothing; \<open>track\<close> of \<open>B\<close> then runs at once, before \<open>A\<close>, which still
  waits. \<open>initializeApp\<close> closes the gate again for the refresh, and when its \<open>setReady\<close>
  empties the queue \<open>A\<close> enters the event queue behind \<open>B\<close>: the two calls, both made
  before the first catalog fetch ended, run in the reverse of their order.
\<close>

theorem gate_opened_without_draining:
  "(let s0 = init ''key'' (new_ApphudSDK demo_sdk demo_backend (demo_page q));
        s1 = snd (track ''A'' None None False s0);
        s2 = setEmail_begin ''a@b.c'' s1;
        s3 = snd (track ''B'' None None False s2);
        s4 = initializeApp_begin True s3
    in (isReady s0, queue s1, map ev_name (queued_events s1),
        isReady s2, queue s2,
        queue s3, map ev_name (queued_events s3),
        isReady s4,
        map_option (\<lambda>r. (fst r, isReady (snd r), queue (snd r), map ev_name (queued_events (snd r))))
          (sdk_setReady utl True s4))) =
   (False, [TrackClosure 0 False], [],
    True, [TrackClosure 0 False],
    [TrackClosure 0 False], [''B''],
    False,
    Some (None, True, [], [''B'', ''A'']))"
  by code_simp

end
